theory Spec2Isabelle
  imports Main "HOL-Library.Sublist"
begin

section \<open>The bridge installer \<^verbatim>\<open>install-bridge.js\<close>\<close>

text \<open>
  The installer is one top-level script: it reads \<^verbatim>\<open>process.platform\<close>, probes the file
  system with \<^verbatim>\<open>fs.existsSync\<close>, creates the destination folder with \<^verbatim>\<open>fs.mkdirSync\<close>,
  copies one file with \<^verbatim>\<open>fs.copyFileSync\<close> or through a child process started by
  \<^verbatim>\<open>execSync\<close>, writes to the console and ends with \<^verbatim>\<open>process.exit(1)\<close> or by running off
  its last line (exit code 0).

  The embedding passes the state explicitly.  A \<open>world\<close> holds what the script reads
  from its surroundings; a \<open>run\<close> is what one execution leaves behind: the exit code,
  the calls it made in order (with what each returned) and the file system at the end.
\<close>

subsection \<open>Paths and the file system\<close>

type_synonym path = string

text \<open>A node of the file system is a directory or a regular file with its bytes.\<close>

datatype node = Dir | File string

type_synonym filesystem = "path \<rightharpoonup> node"

text \<open>How the command started by \<^verbatim>\<open>execSync\<close> ended: with an exit status, or it could
  not be started at all.\<close>

datatype exec_end = Exited nat | SpawnFailed string

text \<open>
  The surroundings of one execution.  \<open>platform\<close> is \<^verbatim>\<open>process.platform\<close>, \<open>dirname\<close> is
  \<^verbatim>\<open>__dirname\<close>, \<open>fs\<close> is the file system when the script starts.  The remaining
  fields are the answers of the operating system that the script cannot compute:
  whether it refuses a \<^verbatim>\<open>mkdir\<close> or a copy of the unprivileged process (with the message
  of the error thrown), and how a child process ends and what file system it leaves.
  \<open>detached\<close> is about a process that a command has started without waiting for it:
  how that process had ended at the moment the command itself ended, \<open>None\<close> when it was
  still running then.
\<close>

record world =
  platform :: string
  dirname :: path
  fs :: filesystem
  mkdir_refused :: "filesystem \<Rightarrow> path \<Rightarrow> string option"
  copy_refused :: "filesystem \<Rightarrow> path \<Rightarrow> path \<Rightarrow> string option"
  exec :: "filesystem \<Rightarrow> string \<Rightarrow> exec_end \<times> filesystem"
  detached :: "filesystem \<Rightarrow> string \<Rightarrow> exec_end option"

text \<open>The calls a run makes, each with what it returned, and the console lines.\<close>

datatype event =
    Log string
  | Err string
  | ExistsSync path bool
  | MkdirSync path "string option"
  | CopyFileSync path path "string option"
  | ExecSync string exec_end

text \<open>The exit site a run ended at: the last line of the script (\<open>Done\<close>), one of the
  five \<^verbatim>\<open>process.exit(1)\<close> calls, or an uncaught exception.\<close>

datatype terminal =
    Done
  | UnsupportedPlatform
  | InstallationNotFound
  | MissingSource
  | DirectoryCreationFailed
  | CopyFailed
  | Crashed

record run =
  exit_code :: nat
  terminal :: terminal
  events :: "event list"
  final_fs :: filesystem

subsection \<open>The library calls\<close>

text \<open>\<^verbatim>\<open>path.sep\<close>: a backslash on Windows, a slash elsewhere.\<close>

definition sep :: "string \<Rightarrow> char" where
  "sep plat = (if plat = ''win32'' then CHR 0x5C else CHR ''/'')"

text \<open>
  \<^verbatim>\<open>path.join\<close> on the segments the script passes.  The segments are literal names and
  non-empty absolute directories without \<^verbatim>\<open>.\<close>, \<^verbatim>\<open>..\<close> or doubled separators, so the
  normalisation \<^verbatim>\<open>path.join\<close> also performs leaves them as they are; a segment that
  already ends with the separator (a root directory) gets no second one.
\<close>

fun path_join :: "char \<Rightarrow> path list \<Rightarrow> path" where
  "path_join s [] = ''.''"
| "path_join s [p] = p"
| "path_join s (p # q # ps) =
     (if p \<noteq> [] \<and> last p = s then p else p @ [s]) @ path_join s (q # ps)"

definition existsSync :: "filesystem \<Rightarrow> path \<Rightarrow> bool" where
  "existsSync f p = (f p \<noteq> None)"

text \<open>The directories \<^verbatim>\<open>mkdir -p\<close> has to ensure for a path: every proper ancestor
  (a non-empty prefix that ends just before a separator) and the path itself.\<close>

definition dir_chain :: "char \<Rightarrow> path \<Rightarrow> path list" where
  "dir_chain s p = filter (\<lambda>q. q \<noteq> [] \<and> (q = p \<or> p ! length q = s)) (prefixes p)"

definition is_file :: "node option \<Rightarrow> bool" where
  "is_file n = (case n of Some (File c) \<Rightarrow> True | _ \<Rightarrow> False)"

text \<open>
  \<^verbatim>\<open>fs.mkdirSync(p, { recursive: true })\<close>: throws when the operating system refuses or
  when a regular file stands in the way; otherwise every missing directory of the chain
  exists afterwards and nothing else has changed.
\<close>

definition mkdirSync :: "world \<Rightarrow> filesystem \<Rightarrow> path \<Rightarrow> string + filesystem" where
  "mkdirSync w f p =
     (case mkdir_refused w f p of
        Some message \<Rightarrow> Inl message
      | None \<Rightarrow>
          if list_ex (\<lambda>q. is_file (f q)) (dir_chain (sep (platform w)) p)
          then Inl (''ENOTDIR: not a directory, mkdir '' @ p)
          else Inr (fold (\<lambda>q g. if g q = None then g(q \<mapsto> Dir) else g)
                      (dir_chain (sep (platform w)) p) f))"

text \<open>
  \<^verbatim>\<open>fs.copyFileSync(src, dst)\<close> with the default mode: an existing destination file is
  overwritten.  It throws when the operating system refuses, when the source is not a
  regular file or when the destination is a directory, and then changes nothing.
\<close>

definition copyFileSync :: "world \<Rightarrow> filesystem \<Rightarrow> path \<Rightarrow> path \<Rightarrow> string + filesystem" where
  "copyFileSync w f src dst =
     (case copy_refused w f src dst of
        Some message \<Rightarrow> Inl message
      | None \<Rightarrow>
          (case f src of
             Some (File content) \<Rightarrow>
               if f dst = Some Dir
               then Inl (''EISDIR: illegal operation on a directory, copyfile'')
               else Inr (f(dst \<mapsto> File content))
           | Some Dir \<Rightarrow> Inl (''EISDIR: illegal operation on a directory, copyfile'')
           | None \<Rightarrow> Inl (''ENOENT: no such file or directory, copyfile'')))"

text \<open>
  \<^verbatim>\<open>execSync(command, { stdio: 'inherit' })\<close> returns once the command it started has
  ended, and throws unless that command exited with status 0.  With inherited stdio the
  output of the child goes to the terminal and the parent never sees it; the message of
  the error thrown is \<^verbatim>\<open>Command failed: \<close> followed by the command.
\<close>

definition exec_error :: "string \<Rightarrow> exec_end \<Rightarrow> string option" where
  "exec_error command e =
     (case e of
        Exited n \<Rightarrow> if n = 0 then None else Some (''Command failed: '' @ command)
      | SpawnFailed message \<Rightarrow> Some message)"

subsection \<open>The script, top to bottom\<close>

text \<open>Lines 13 to 34.\<close>

definition getPossibleAfterEffectsPaths :: "string \<Rightarrow> path list" where
  "getPossibleAfterEffectsPaths plat =
     (if plat = ''win32'' then
        [''C:'' @ CHR 0x5C # ''Program Files'' @ CHR 0x5C # ''Adobe'' @ CHR 0x5C # ''Adobe After Effects 2025'',
         ''C:'' @ CHR 0x5C # ''Program Files'' @ CHR 0x5C # ''Adobe'' @ CHR 0x5C # ''Adobe After Effects 2024'',
         ''C:'' @ CHR 0x5C # ''Program Files'' @ CHR 0x5C # ''Adobe'' @ CHR 0x5C # ''Adobe After Effects 2023'',
         ''C:'' @ CHR 0x5C # ''Program Files'' @ CHR 0x5C # ''Adobe'' @ CHR 0x5C # ''Adobe After Effects 2022'',
         ''C:'' @ CHR 0x5C # ''Program Files'' @ CHR 0x5C # ''Adobe'' @ CHR 0x5C # ''Adobe After Effects 2021'']
      else if plat = ''darwin'' then
        [''/Applications/Adobe After Effects 2025'',
         ''/Applications/Adobe After Effects 2024'',
         ''/Applications/Adobe After Effects 2023'',
         ''/Applications/Adobe After Effects 2022'',
         ''/Applications/Adobe After Effects 2021'']
      else [])"

text \<open>Lines 46 to 52: the loop over \<^verbatim>\<open>possiblePaths\<close> that stops at the first path that
  exists.  It returns \<^verbatim>\<open>afterEffectsPath\<close> (\<open>None\<close> for \<^verbatim>\<open>null\<close>) and the probes made.\<close>

fun find_afterEffectsPath :: "filesystem \<Rightarrow> path list \<Rightarrow> path option \<times> event list" where
  "find_afterEffectsPath f [] = (None, [])"
| "find_afterEffectsPath f (testPath # rest) =
     (if existsSync f testPath then (Some testPath, [ExistsSync testPath True])
      else (fst (find_afterEffectsPath f rest),
            ExistsSync testPath False # snd (find_afterEffectsPath f rest)))"

text \<open>Lines 67 to 74.  \<open>destinationFolder\<close> stays \<^verbatim>\<open>undefined\<close> (\<open>None\<close>) on a platform
  that is neither of the two.\<close>

definition sourceScript :: "world \<Rightarrow> path" where
  "sourceScript w =
     path_join (sep (platform w)) [dirname w, ''build'', ''scripts'', ''mcp-bridge-auto.jsx'']"

definition destinationFolder :: "string \<Rightarrow> path \<Rightarrow> path option" where
  "destinationFolder plat afterEffectsPath =
     (if plat = ''win32'' then
        Some (path_join (sep plat) [afterEffectsPath, ''Support Files'', ''Scripts'', ''ScriptUI Panels''])
      else if plat = ''darwin'' then
        Some (path_join (sep plat) [afterEffectsPath, ''Scripts'', ''ScriptUI Panels''])
      else None)"

definition destinationScript :: "string \<Rightarrow> path \<Rightarrow> path" where
  "destinationScript plat folder = path_join (sep plat) [folder, ''mcp-bridge-auto.jsx'']"

text \<open>Lines 101 to 104 and 117: the two commands handed to \<^verbatim>\<open>execSync\<close>.  In the first,
  \<^verbatim>\<open>replace(/\\/g, '\\\\')\<close> doubles every backslash of the two paths.\<close>

definition double_backslashes :: "string \<Rightarrow> string" where
  "double_backslashes s = concat (map (\<lambda>c. if c = CHR 0x5C then [CHR 0x5C, CHR 0x5C] else [c]) s)"

definition powershell_command :: "path \<Rightarrow> path \<Rightarrow> string" where
  \<open>powershell_command src dst =
     ''powershell -Command "'' @
     CHR 0x0A # ''        Start-Process PowerShell -Verb RunAs -ArgumentList "-Command Copy-Item -Path '' @
     CHR 0x27 # double_backslashes src @ CHR 0x27 # '' -Destination '' @
     CHR 0x27 # double_backslashes dst @ CHR 0x27 # '' -Force"'' @
     CHR 0x0A # ''      '' @ ''"''\<close>

definition sudo_command :: "path \<Rightarrow> path \<Rightarrow> string" where
  \<open>sudo_command src dst = ''sudo cp "'' @ src @ ''" "'' @ dst @ ''"''\<close>

text \<open>
  What each of the two commands is to the privileged copy.  \<^verbatim>\<open>sudo cp\<close> is the copy
  itself: \<^verbatim>\<open>sudo\<close> runs \<^verbatim>\<open>cp\<close> in the foreground and ends when it has ended, with its
  status.  The PowerShell command is a launcher: \<^verbatim>\<open>Start-Process -Verb RunAs\<close> is written
  without \<^verbatim>\<open>-Wait\<close> (line 102), so it starts the elevated PowerShell that is to run
  \<^verbatim>\<open>Copy-Item\<close> and ends with status 0 as soon as that process is started, or fails when
  it could not be started.  \<open>copy_process\<close> is the state of the privileged copy process
  at the moment \<^verbatim>\<open>execSync\<close> returns.
\<close>

datatype elevated_copy = RunAs_Copy_Item path path | Sudo_cp path path

datatype process_state = Not_started | Running | Ended exec_end

fun command_line :: "elevated_copy \<Rightarrow> string" where
  "command_line (RunAs_Copy_Item src dst) = powershell_command src dst"
| "command_line (Sudo_cp src dst) = sudo_command src dst"

fun copy_process :: "world \<Rightarrow> filesystem \<Rightarrow> elevated_copy \<Rightarrow> process_state" where
  "copy_process w f (Sudo_cp src dst) =
     (case fst (exec w f (sudo_command src dst)) of
        Exited n \<Rightarrow> Ended (Exited n)
      | SpawnFailed message \<Rightarrow> Not_started)"
| "copy_process w f (RunAs_Copy_Item src dst) =
     (if fst (exec w f (powershell_command src dst)) = Exited 0
      then (case detached w f (powershell_command src dst) of
              None \<Rightarrow> Running
            | Some e \<Rightarrow> Ended e)
      else Not_started)"

text \<open>Lines 121 to 131: the run ends by reaching the end of the script.\<close>

definition succeed :: "world \<Rightarrow> event list \<Rightarrow> filesystem \<Rightarrow> run" where
  \<open>succeed w evs f =
     \<lparr>exit_code = 0, terminal = Done,
      events = evs @
        [Log ''Bridge script installed successfully!'',
         Log (CHR 0x0A # ''Important next steps:''),
         Log ''1. Open After Effects''] @
        (if platform w = ''win32'' then
           [Log ''2. Go to Edit > Preferences > Scripting & Expressions'']
         else if platform w = ''darwin'' then
           [Log ''2. Go to Adobe After Effects > Preferences > Scripting & Expressions'']
         else []) @
        [Log ''3. Enable "Allow Scripts to Write Files and Access Network"'',
         Log ''4. Restart After Effects'',
         Log ''5. Open the bridge panel: Window > mcp-bridge-auto.jsx''],
      final_fs = f\<rparr>\<close>

text \<open>Lines 132 to 143: the outer \<^verbatim>\<open>catch\<close>.\<close>

definition fail_copy :: "world \<Rightarrow> event list \<Rightarrow> filesystem \<Rightarrow> string \<Rightarrow> path \<Rightarrow> path \<Rightarrow> run" where
  "fail_copy w evs f message src dst =
     \<lparr>exit_code = 1, terminal = CopyFailed,
      events = evs @
        [Err (''Error installing script: '' @ message),
         Err (CHR 0x0A # ''Please try manual installation:''),
         Err (''1. Copy: '' @ src),
         Err (''2. To: '' @ dst)] @
        (if platform w = ''win32'' then
           [Err ''3. You may need to run as administrator or use File Explorer with admin rights'']
         else if platform w = ''darwin'' then
           [Err ''3. You may need to use sudo or run with administrator privileges'']
         else []),
      final_fs = f\<rparr>"

text \<open>Lines 95 to 119: the copy, with the inner \<^verbatim>\<open>try\<close>/\<^verbatim>\<open>catch\<close> of each platform.  An
  error of the second attempt is the one the outer \<^verbatim>\<open>catch\<close> receives.\<close>

definition copy_stage :: "world \<Rightarrow> event list \<Rightarrow> filesystem \<Rightarrow> path \<Rightarrow> path \<Rightarrow> run" where
  "copy_stage w evs f src dst =
     (let evs0 = evs @ [Log (''Installing bridge script to '' @ dst @ ''...'')] in
      if platform w = ''win32'' then
        (let command = powershell_command src dst;
             e = fst (exec w f command);
             f1 = snd (exec w f command)
         in case exec_error command e of
              None \<Rightarrow> succeed w (evs0 @ [ExecSync command e]) f1
            | Some elevatedError \<Rightarrow>
                (let evs1 = evs0 @ [ExecSync command e,
                                    Log ''Elevated copy failed, trying normal copy...'']
                 in case copyFileSync w f1 src dst of
                      Inr f2 \<Rightarrow> succeed w (evs1 @ [CopyFileSync src dst None]) f2
                    | Inl message \<Rightarrow>
                        fail_copy w (evs1 @ [CopyFileSync src dst (Some message)]) f1 message src dst))
      else if platform w = ''darwin'' then
        (case copyFileSync w f src dst of
           Inr f1 \<Rightarrow> succeed w (evs0 @ [CopyFileSync src dst None]) f1
         | Inl copyError \<Rightarrow>
             (let evs1 = evs0 @ [CopyFileSync src dst (Some copyError),
                                 Err ''Normal copy failed. Trying with elevated privileges...''];
                  command = sudo_command src dst;
                  e = fst (exec w f command);
                  f1 = snd (exec w f command)
              in case exec_error command e of
                   None \<Rightarrow> succeed w (evs1 @ [ExecSync command e]) f1
                 | Some message \<Rightarrow>
                     fail_copy w (evs1 @ [ExecSync command e]) f1 message src dst))
      else succeed w evs0 f)"

text \<open>Lines 84 to 92: the destination folder is created only when it does not exist.\<close>

definition ensure_folder_stage :: "world \<Rightarrow> event list \<Rightarrow> path \<Rightarrow> path \<Rightarrow> path \<Rightarrow> run" where
  "ensure_folder_stage w evs src folder dst =
     (if \<not> existsSync (fs w) folder then
        (case mkdirSync w (fs w) folder of
           Inl message \<Rightarrow>
             \<lparr>exit_code = 1, terminal = DirectoryCreationFailed,
              events = evs @
                [ExistsSync folder False, MkdirSync folder (Some message),
                 Err (''Error creating destination folder: '' @ message),
                 Err ''You may need administrative privileges to install the script.''],
              final_fs = fs w\<rparr>
         | Inr f \<Rightarrow>
             copy_stage w (evs @ [ExistsSync folder False, MkdirSync folder None]) f src dst)
      else copy_stage w (evs @ [ExistsSync folder True]) (fs w) src dst)"

text \<open>Lines 67 to 81: the paths are computed, then the source is checked.  With
  \<open>destinationFolder\<close> undefined, \<^verbatim>\<open>path.join\<close> throws a \<^verbatim>\<open>TypeError\<close> that nothing
  catches.\<close>

definition source_stage :: "world \<Rightarrow> event list \<Rightarrow> path \<Rightarrow> run" where
  \<open>source_stage w evs afterEffectsPath =
     (case destinationFolder (platform w) afterEffectsPath of
        None \<Rightarrow>
          \<lparr>exit_code = 1, terminal = Crashed,
           events = evs @ [Err ''TypeError [ERR_INVALID_ARG_TYPE]: The "path" argument must be of type string. Received undefined''],
           final_fs = fs w\<rparr>
      | Some folder \<Rightarrow>
          if \<not> existsSync (fs w) (sourceScript w) then
            \<lparr>exit_code = 1, terminal = MissingSource,
             events = evs @
               [ExistsSync (sourceScript w) False,
                Err (''Error: Source script not found at '' @ sourceScript w),
                Err ''Please run "npm run build" first to generate the script.''],
             final_fs = fs w\<rparr>
          else
            ensure_folder_stage w (evs @ [ExistsSync (sourceScript w) True])
              (sourceScript w) folder (destinationScript (platform w) folder))\<close>

text \<open>Lines 36 to 64, and from there the rest of the script.\<close>

definition install_bridge :: "world \<Rightarrow> run" where
  "install_bridge w =
     (let possiblePaths = getPossibleAfterEffectsPaths (platform w) in
      if length possiblePaths = 0 then
        \<lparr>exit_code = 1, terminal = UnsupportedPlatform,
         events =
           [Err ''Error: After Effects is not officially supported on this platform.'',
            Err ''After Effects is only available on Windows and macOS.''],
         final_fs = fs w\<rparr>
      else
        (case fst (find_afterEffectsPath (fs w) possiblePaths) of
           None \<Rightarrow>
             \<lparr>exit_code = 1, terminal = InstallationNotFound,
              events = snd (find_afterEffectsPath (fs w) possiblePaths) @
                [Err ''Error: Could not find After Effects installation.'',
                 Err ''Please manually copy the bridge script to your After Effects ScriptUI Panels folder.'',
                 Err ''Source: build/scripts/mcp-bridge-auto.jsx''] @
                (if platform w = ''win32'' then
                   [Err (''Target: C:'' @ CHR 0x5C # ''Program Files'' @ CHR 0x5C # ''Adobe'' @
                         CHR 0x5C # ''Adobe After Effects [VERSION]'' @ CHR 0x5C # ''Support Files'' @
                         CHR 0x5C # ''Scripts'' @ CHR 0x5C # ''ScriptUI Panels'' @ [CHR 0x5C])]
                 else if platform w = ''darwin'' then
                   [Err ''Target: /Applications/Adobe After Effects [VERSION]/Scripts/ScriptUI Panels/'']
                 else []),
              final_fs = fs w\<rparr>
         | Some afterEffectsPath \<Rightarrow>
             source_stage w (snd (find_afterEffectsPath (fs w) possiblePaths)) afterEffectsPath))"

subsection \<open>Observations on a run\<close>

text \<open>
  The properties below speak about a run through the following readings of its events
  and of the world it started in.  \<open>is_attempt\<close> marks the two ways of copying,
  \<open>is_mutation\<close> every call that can change the file system, \<open>is_fs_call\<close> every call
  that touches it at all.
\<close>

definition is_attempt :: "event \<Rightarrow> bool" where
  "is_attempt e = (case e of CopyFileSync s d r \<Rightarrow> True | ExecSync c r \<Rightarrow> True | _ \<Rightarrow> False)"

definition is_fs_call :: "event \<Rightarrow> bool" where
  "is_fs_call e = (case e of Log m \<Rightarrow> False | Err m \<Rightarrow> False | _ \<Rightarrow> True)"

definition is_mutation :: "event \<Rightarrow> bool" where
  "is_mutation e =
     (case e of
        MkdirSync p r \<Rightarrow> True | CopyFileSync s d r \<Rightarrow> True | ExecSync c r \<Rightarrow> True
      | _ \<Rightarrow> False)"

definition is_mkdir :: "event \<Rightarrow> bool" where
  "is_mkdir e = (case e of MkdirSync p r \<Rightarrow> True | _ \<Rightarrow> False)"

definition attempts :: "event list \<Rightarrow> event list" where
  "attempts evs = filter is_attempt evs"

definition err_lines :: "event list \<Rightarrow> string list" where
  "err_lines evs = concat (map (\<lambda>e. case e of Err m \<Rightarrow> [m] | _ \<Rightarrow> []) evs)"

text \<open>
  What the first stages of the script compute from a world: the installation root the
  loop settles on and the probes it makes, the destination folder, and the file system
  the copy stage starts from (\<open>None\<close> when the run ends before the copy stage).
\<close>

definition located :: "world \<Rightarrow> path option" where
  "located w = fst (find_afterEffectsPath (fs w) (getPossibleAfterEffectsPaths (platform w)))"

definition probes :: "world \<Rightarrow> event list" where
  "probes w = snd (find_afterEffectsPath (fs w) (getPossibleAfterEffectsPaths (platform w)))"

definition install_folder :: "world \<Rightarrow> path option" where
  "install_folder w =
     (case located w of None \<Rightarrow> None | Some root \<Rightarrow> destinationFolder (platform w) root)"

definition fs_at_copy :: "world \<Rightarrow> filesystem option" where
  "fs_at_copy w =
     (case install_folder w of
        None \<Rightarrow> None
      | Some folder \<Rightarrow>
          if \<not> existsSync (fs w) (sourceScript w) then None
          else if existsSync (fs w) folder then Some (fs w)
          else (case mkdirSync w (fs w) folder of Inl message \<Rightarrow> None | Inr f \<Rightarrow> Some f))"

definition events_before_copy :: "world \<Rightarrow> path \<Rightarrow> event list" where
  "events_before_copy w folder =
     probes w @ [ExistsSync (sourceScript w) True] @
     (if existsSync (fs w) folder then [ExistsSync folder True]
      else [ExistsSync folder False, MkdirSync folder None])"

definition installing_line :: "path \<Rightarrow> event" where
  "installing_line dst = Log (''Installing bridge script to '' @ dst @ ''...'')"

definition target_hint :: "string \<Rightarrow> event list" where
  "target_hint plat =
     (if plat = ''win32'' then
        [Err (''Target: C:'' @ CHR 0x5C # ''Program Files'' @ CHR 0x5C # ''Adobe'' @
              CHR 0x5C # ''Adobe After Effects [VERSION]'' @ CHR 0x5C # ''Support Files'' @
              CHR 0x5C # ''Scripts'' @ CHR 0x5C # ''ScriptUI Panels'' @ [CHR 0x5C])]
      else if plat = ''darwin'' then
        [Err ''Target: /Applications/Adobe After Effects [VERSION]/Scripts/ScriptUI Panels/'']
      else [])"

definition elevated_command :: "string \<Rightarrow> path \<Rightarrow> path \<Rightarrow> string" where
  "elevated_command plat src dst =
     (if plat = ''win32'' then powershell_command src dst else sudo_command src dst)"

text \<open>
  The copy stage succeeds when one of the two attempts of the platform does, in the
  order the platform tries them.
\<close>

definition copy_succeeds :: "world \<Rightarrow> filesystem \<Rightarrow> path \<Rightarrow> path \<Rightarrow> bool" where
  "copy_succeeds w f src dst =
     (if platform w = ''win32'' then
        fst (exec w f (powershell_command src dst)) = Exited 0 \<or>
        \<not> isl (copyFileSync w (snd (exec w f (powershell_command src dst))) src dst)
      else
        \<not> isl (copyFileSync w f src dst) \<or>
        fst (exec w f (sudo_command src dst)) = Exited 0)"

text \<open>
  Each exit site has a line of its own on the console: \<open>banner\<close> is how that line
  starts, and a run \<open>announces\<close> an exit site when it prints such a line (on standard
  error for the failures, on standard output for the success).
\<close>

fun banner :: "terminal \<Rightarrow> string" where
  "banner Done = ''Bridge script installed successfully!''"
| "banner UnsupportedPlatform = ''Error: After Effects is not officially supported on this platform.''"
| "banner InstallationNotFound = ''Error: Could not find After Effects installation.''"
| "banner MissingSource = ''Error: Source script not found at ''"
| "banner DirectoryCreationFailed = ''Error creating destination folder: ''"
| "banner CopyFailed = ''Error installing script: ''"
| "banner Crashed = ''TypeError''"

definition announces :: "terminal \<Rightarrow> event list \<Rightarrow> bool" where
  "announces k evs =
     (if k = Done then list_ex (\<lambda>e. e = Log (banner Done)) evs
      else list_ex (prefix (banner k)) (err_lines evs))"

subsection \<open>The resolver as the specification words it\<close>

text \<open>
  The specification describes the candidate roots by a rule: a fixed descending
  sequence of year tags, appended to a platform prefix, with a destination sub-path per
  platform.  \<open>resolve_reference\<close> follows those words; it is compared with
  \<open>getPossibleAfterEffectsPaths\<close> and \<open>destinationFolder\<close> further down.
\<close>

definition year_tags :: "nat list" where
  "year_tags = [2025, 2024, 2023, 2022, 2021]"

fun decimal :: "nat \<Rightarrow> string" where
  "decimal n =
     (if n < 10 then [''0123456789'' ! n]
      else decimal (n div 10) @ [''0123456789'' ! (n mod 10)])"

declare decimal.simps [simp del]

definition program_files :: path where
  "program_files = ''C:'' @ CHR 0x5C # ''Program Files''"

definition resolve_reference :: "string \<Rightarrow> (path list \<times> path) option" where
  "resolve_reference osId =
     (if osId = ''win32'' then
        Some (map (\<lambda>year. program_files @ CHR 0x5C # ''Adobe'' @ CHR 0x5C #
                     ''Adobe After Effects '' @ decimal year) year_tags,
              ''Support Files'' @ CHR 0x5C # ''Scripts'' @ CHR 0x5C # ''ScriptUI Panels'')
      else if osId = ''darwin'' then
        Some (map (\<lambda>year. ''/Applications/Adobe After Effects '' @ decimal year) year_tags,
              ''Scripts/ScriptUI Panels'')
      else None)"

subsection \<open>Sample worlds\<close>

text \<open>
  Concrete machines on which the properties are exercised.  \<open>inert e\<close> is a child
  process that ends with \<open>e\<close> and touches nothing; \<open>copying src dst\<close> is one that copies
  the file and exits with status 0.  In a sample world a process that was started
  without being waited for is still running when its launcher ends, except in
  \<open>win_trusting_world\<close>, where it has failed by then.
\<close>

definition inert :: "exec_end \<Rightarrow> filesystem \<Rightarrow> string \<Rightarrow> exec_end \<times> filesystem" where
  "inert e g c = (e, g)"

definition copying :: "path \<Rightarrow> path \<Rightarrow> filesystem \<Rightarrow> string \<Rightarrow> exec_end \<times> filesystem" where
  "copying src dst g c =
     (case g src of Some (File b) \<Rightarrow> (Exited 0, g(dst \<mapsto> File b)) | _ \<Rightarrow> (Exited 1, g))"

definition sample_world ::
  "string \<Rightarrow> path \<Rightarrow> filesystem \<Rightarrow> string option \<Rightarrow> string option \<Rightarrow>
   (filesystem \<Rightarrow> string \<Rightarrow> exec_end \<times> filesystem) \<Rightarrow> world" where
  "sample_world plat dir f mk cp e =
     \<lparr>platform = plat, dirname = dir, fs = f,
      mkdir_refused = (\<lambda>g p. mk), copy_refused = (\<lambda>g s d. cp), exec = e,
      detached = (\<lambda>g c. None)\<rparr>"

definition win_root :: path where
  "win_root =
     ''C:'' @ CHR 0x5C # ''Program Files'' @ CHR 0x5C # ''Adobe'' @ CHR 0x5C #
     ''Adobe After Effects 2024''"

definition win_root_2023 :: path where
  "win_root_2023 =
     ''C:'' @ CHR 0x5C # ''Program Files'' @ CHR 0x5C # ''Adobe'' @ CHR 0x5C #
     ''Adobe After Effects 2023''"

definition win_folder :: path where
  "win_folder =
     win_root @ CHR 0x5C # ''Support Files'' @ CHR 0x5C # ''Scripts'' @ CHR 0x5C #
     ''ScriptUI Panels''"

definition win_target :: path where
  "win_target = win_folder @ CHR 0x5C # ''mcp-bridge-auto.jsx''"

definition win_dirname :: path where
  "win_dirname = ''C:'' @ CHR 0x5C # ''bridge''"

definition win_source :: path where
  "win_source =
     win_dirname @ CHR 0x5C # ''build'' @ CHR 0x5C # ''scripts'' @ CHR 0x5C #
     ''mcp-bridge-auto.jsx''"

definition win_fs :: filesystem where
  "win_fs = [win_root \<mapsto> Dir, win_root_2023 \<mapsto> Dir, win_folder \<mapsto> Dir,
             win_source \<mapsto> File ''new panel'', win_target \<mapsto> File ''old panel'']"

definition mac_root :: path where
  "mac_root = ''/Applications/Adobe After Effects 2024''"

definition mac_folder :: path where
  "mac_folder = mac_root @ ''/Scripts/ScriptUI Panels''"

definition mac_target :: path where
  "mac_target = mac_folder @ ''/mcp-bridge-auto.jsx''"

definition mac_dirname :: path where
  "mac_dirname = ''/opt/bridge''"

definition mac_source :: path where
  "mac_source = mac_dirname @ ''/build/scripts/mcp-bridge-auto.jsx''"

definition mac_bare_fs :: filesystem where
  "mac_bare_fs = [mac_root \<mapsto> Dir, mac_source \<mapsto> File ''new panel'']"

definition mac_fs :: filesystem where
  "mac_fs = mac_bare_fs(mac_folder \<mapsto> Dir, mac_target \<mapsto> File ''old panel'')"

definition mac_unbuilt_fs :: filesystem where
  "mac_unbuilt_fs = [mac_root \<mapsto> Dir]"

definition linux_world :: world where
  "linux_world = sample_world ''linux'' mac_dirname Map.empty None None (inert (Exited 0))"

definition win_fallback_world :: world where
  "win_fallback_world = sample_world ''win32'' win_dirname win_fs None None (inert (Exited 1))"

definition win_detached_world :: world where
  "win_detached_world = sample_world ''win32'' win_dirname win_fs None None (inert (Exited 0))"



definition mac_sudo_world :: world where
  "mac_sudo_world =
     sample_world ''darwin'' mac_dirname mac_fs None (Some ''EACCES: permission denied'')
       (copying mac_source mac_target)"

definition mac_stuck_world :: world where
  "mac_stuck_world =
     sample_world ''darwin'' mac_dirname mac_bare_fs None (Some ''EACCES: permission denied'')
       (inert (Exited 1))"

section \<open>The stages of a run\<close>

subsection \<open>Locating the installation\<close>

lemma find_none_iff:
  "fst (find_afterEffectsPath f ps) = None \<longleftrightarrow> (\<forall>p\<in>set ps. \<not> existsSync f p)"
  by (induction ps) auto

lemma find_none_probes:
  "\<forall>p\<in>set ps. \<not> existsSync f p \<Longrightarrow>
   snd (find_afterEffectsPath f ps) = map (\<lambda>p. ExistsSync p False) ps"
  by (induction ps) auto

lemma find_some_split:
  "fst (find_afterEffectsPath f ps) = Some p \<Longrightarrow>
   \<exists>before after. ps = before @ p # after \<and> (\<forall>q\<in>set before. \<not> existsSync f q) \<and>
     existsSync f p \<and>
     snd (find_afterEffectsPath f ps) = map (\<lambda>q. ExistsSync q False) before @ [ExistsSync p True]"
proof (induction ps)
  case Nil
  then show ?case by simp
next
  case (Cons a ps)
  show ?case
  proof (cases "existsSync f a")
    case True
    with Cons.prems have "a = p" by simp
    with True show ?thesis
      by (intro exI [of _ "[]"] exI [of _ ps]) simp
  next
    case False
    with Cons.prems have "fst (find_afterEffectsPath f ps) = Some p" by simp
    from Cons.IH [OF this] obtain before after where
      h: "ps = before @ p # after" "\<forall>q\<in>set before. \<not> existsSync f q" "existsSync f p"
         "snd (find_afterEffectsPath f ps) = map (\<lambda>q. ExistsSync q False) before @ [ExistsSync p True]"
      by blast
    with False show ?thesis
      by (intro exI [of _ "a # before"] exI [of _ after]) simp
  qed
qed

lemma find_probes_only:
  "filter is_mutation (snd (find_afterEffectsPath f ps)) = []"
  by (induction ps) (auto simp: is_mutation_def)

lemma find_probes_no_attempt:
  "filter is_attempt (snd (find_afterEffectsPath f ps)) = []"
  by (induction ps) (auto simp: is_attempt_def)


lemma paths_empty_iff:
  "getPossibleAfterEffectsPaths plat = [] \<longleftrightarrow> plat \<noteq> ''win32'' \<and> plat \<noteq> ''darwin''"
  by (simp add: getPossibleAfterEffectsPaths_def)

lemma located_supported:
  "located w = Some root \<Longrightarrow> platform w = ''win32'' \<or> platform w = ''darwin''"
  by (auto simp: located_def getPossibleAfterEffectsPaths_def split: if_splits)

lemma install_bridge_located:
  "located w = Some root \<Longrightarrow> install_bridge w = source_stage w (probes w) root"
  by (frule located_supported)
     (auto simp: install_bridge_def located_def probes_def getPossibleAfterEffectsPaths_def Let_def)

lemma install_folder_some:
  "install_folder w = Some folder \<Longrightarrow>
   \<exists>root. located w = Some root \<and> destinationFolder (platform w) root = Some folder"
  by (auto simp: install_folder_def split: option.splits)

lemma install_folder_supported:
  "install_folder w = Some folder \<Longrightarrow> platform w = ''win32'' \<or> platform w = ''darwin''"
  using install_folder_some located_supported by blast

lemma supported_folder:
  assumes "located w = Some root"
  shows "\<exists>folder. install_folder w = Some folder"
  using located_supported [OF assms] assms
  by (auto simp: install_folder_def destinationFolder_def)


subsection \<open>The events of a run\<close>

lemma attempts_append [simp]: "attempts (xs @ ys) = attempts xs @ attempts ys"
  by (simp add: attempts_def)

lemma attempts_simps [simp]:
  "attempts [] = []"
  "attempts (Log m # evs) = attempts evs"
  "attempts (Err m # evs) = attempts evs"
  "attempts (ExistsSync p b # evs) = attempts evs"
  "attempts (MkdirSync p r # evs) = attempts evs"
  "attempts (CopyFileSync s d r # evs) = CopyFileSync s d r # attempts evs"
  "attempts (ExecSync c e # evs) = ExecSync c e # attempts evs"
  by (simp_all add: attempts_def is_attempt_def)

lemma is_mutation_simps [simp]:
  "is_mutation (Log m) = False"
  "is_mutation (Err m) = False"
  "is_mutation (ExistsSync p b) = False"
  "is_mutation (MkdirSync p r) = True"
  "is_mutation (CopyFileSync s d r) = True"
  "is_mutation (ExecSync c e) = True"
  by (simp_all add: is_mutation_def)

lemma err_lines_append [simp]: "err_lines (xs @ ys) = err_lines xs @ err_lines ys"
  by (simp add: err_lines_def)

lemma err_lines_simps [simp]:
  "err_lines [] = []"
  "err_lines (Log m # evs) = err_lines evs"
  "err_lines (Err m # evs) = m # err_lines evs"
  "err_lines (ExistsSync p b # evs) = err_lines evs"
  "err_lines (MkdirSync p r # evs) = err_lines evs"
  "err_lines (CopyFileSync s d r # evs) = err_lines evs"
  "err_lines (ExecSync c e # evs) = err_lines evs"
  by (simp_all add: err_lines_def)

lemma succeed_sel [simp]:
  "exit_code (succeed w evs f) = 0"
  "terminal (succeed w evs f) = Done"
  "final_fs (succeed w evs f) = f"
  "attempts (events (succeed w evs f)) = attempts evs"
  by (simp_all add: succeed_def)

lemma fail_copy_sel [simp]:
  "exit_code (fail_copy w evs f m s d) = 1"
  "terminal (fail_copy w evs f m s d) = CopyFailed"
  "final_fs (fail_copy w evs f m s d) = f"
  "attempts (events (fail_copy w evs f m s d)) = attempts evs"
  by (simp_all add: fail_copy_def)

lemma succeed_mutations [simp]:
  "filter is_mutation (events (succeed w evs f)) = filter is_mutation evs"
  by (simp add: succeed_def)

lemma fail_copy_mutations [simp]:
  "filter is_mutation (events (fail_copy w evs f m s d)) = filter is_mutation evs"
  by (simp add: fail_copy_def)

lemma exec_error_none [simp]: "exec_error c e = None \<longleftrightarrow> e = Exited 0"
  by (simp add: exec_error_def split: exec_end.splits)

lemma exec_error_some: "e \<noteq> Exited 0 \<Longrightarrow> \<exists>m. exec_error c e = Some m"
  by (cases "exec_error c e") auto



lemma events_before_copy_no_attempt:
  "filter is_attempt (events_before_copy w folder) = []"
  by (simp add: events_before_copy_def probes_def find_probes_no_attempt is_attempt_def)

lemma pre_no_attempt [simp]: "attempts (events_before_copy w folder) = []"
  by (simp add: attempts_def events_before_copy_no_attempt)

lemma installing_line_no_attempt [simp]: "attempts (installing_line d # evs) = attempts evs"
  by (simp add: installing_line_def)

lemma installing_line_no_mutation [simp]: "is_mutation (installing_line d) = False"
  by (simp add: installing_line_def)

lemma probes_no_mutation [simp]: "filter is_mutation (probes w) = []"
  unfolding probes_def by (rule find_probes_only)

lemma probes_no_mkdir [simp]: "filter is_mkdir (probes w) = []"
proof -
  have "filter is_mkdir (snd (find_afterEffectsPath f ps)) = []" for f ps
    by (induction ps) (auto simp: is_mkdir_def)
  then show ?thesis by (simp add: probes_def)
qed

lemma events_before_copy_mutations [simp]:
  "filter is_mutation (events_before_copy w folder) =
     (if existsSync (fs w) folder then [] else [MkdirSync folder None])"
  by (simp add: events_before_copy_def)

subsection \<open>The ways through the script\<close>

text \<open>A run that reaches the copy stage is the copy stage, started on the events made
  so far and on the file system the folder stage left.\<close>

lemma reaches_copy:
  assumes "install_folder w = Some folder" and "fs_at_copy w = Some f"
  shows "install_bridge w =
           copy_stage w (events_before_copy w folder) f (sourceScript w)
             (destinationScript (platform w) folder)"
proof -
  from assms(1) obtain root where
    r: "located w = Some root" "destinationFolder (platform w) root = Some folder"
    using install_folder_some by blast
  from assms have src: "existsSync (fs w) (sourceScript w)"
    by (auto simp: fs_at_copy_def split: if_splits)
  show ?thesis
  proof (cases "existsSync (fs w) folder")
    case True
    with assms src have "f = fs w" by (simp add: fs_at_copy_def)
    with True r src show ?thesis
      by (simp add: install_bridge_located source_stage_def ensure_folder_stage_def
            events_before_copy_def)
  next
    case False
    with assms src have "mkdirSync w (fs w) folder = Inr f"
      by (auto simp: fs_at_copy_def split: sum.splits)
    with False r src show ?thesis
      by (simp add: install_bridge_located source_stage_def ensure_folder_stage_def
            events_before_copy_def)
  qed
qed

text \<open>The four runs that end before the copy stage.\<close>

lemma located_none_unsupported:
  "located w = None \<Longrightarrow> platform w \<noteq> ''win32'' \<Longrightarrow> platform w \<noteq> ''darwin'' \<Longrightarrow>
   install_bridge w =
     \<lparr>exit_code = 1, terminal = UnsupportedPlatform,
      events =
        [Err ''Error: After Effects is not officially supported on this platform.'',
         Err ''After Effects is only available on Windows and macOS.''],
      final_fs = fs w\<rparr>"
  by (simp add: install_bridge_def paths_empty_iff)

lemma install_bridge_not_found:
  assumes "located w = None" and "platform w = ''win32'' \<or> platform w = ''darwin''"
  shows "install_bridge w =
     \<lparr>exit_code = 1, terminal = InstallationNotFound,
      events = probes w @
        [Err ''Error: Could not find After Effects installation.'',
         Err ''Please manually copy the bridge script to your After Effects ScriptUI Panels folder.'',
         Err ''Source: build/scripts/mcp-bridge-auto.jsx''] @ target_hint (platform w),
      final_fs = fs w\<rparr>"
proof -
  have "getPossibleAfterEffectsPaths (platform w) \<noteq> []"
    using assms(2) by (simp add: paths_empty_iff)
  with assms(1) show ?thesis
    by (simp add: install_bridge_def located_def probes_def target_hint_def Let_def)
qed

lemma install_bridge_missing_source:
  assumes "install_folder w = Some folder" and "\<not> existsSync (fs w) (sourceScript w)"
  shows \<open>install_bridge w =
     \<lparr>exit_code = 1, terminal = MissingSource,
      events = probes w @
        [ExistsSync (sourceScript w) False,
         Err (''Error: Source script not found at '' @ sourceScript w),
         Err ''Please run "npm run build" first to generate the script.''],
      final_fs = fs w\<rparr>\<close>
proof -
  from assms(1) obtain root where
    "located w = Some root" "destinationFolder (platform w) root = Some folder"
    using install_folder_some by blast
  with assms(2) show ?thesis
    by (simp add: install_bridge_located source_stage_def)
qed

lemma install_bridge_mkdir_failed:
  assumes "install_folder w = Some folder" and "existsSync (fs w) (sourceScript w)"
    and "\<not> existsSync (fs w) folder" and "mkdirSync w (fs w) folder = Inl m"
  shows "install_bridge w =
     \<lparr>exit_code = 1, terminal = DirectoryCreationFailed,
      events = probes w @
        [ExistsSync (sourceScript w) True, ExistsSync folder False, MkdirSync folder (Some m),
         Err (''Error creating destination folder: '' @ m),
         Err ''You may need administrative privileges to install the script.''],
      final_fs = fs w\<rparr>"
proof -
  from assms(1) obtain root where
    "located w = Some root" "destinationFolder (platform w) root = Some folder"
    using install_folder_some by blast
  with assms(2-) show ?thesis
    by (simp add: install_bridge_located source_stage_def ensure_folder_stage_def)
qed

lemma source_missing_no_copy:
  "\<not> existsSync (fs w) (sourceScript w) \<Longrightarrow> fs_at_copy w = None"
  by (simp add: fs_at_copy_def split: option.splits)


text \<open>Every run takes one of five ways.\<close>

lemma run_cases [case_names unsupported not_found missing_source mkdir_failed copy]:
  assumes "\<lbrakk>platform w \<noteq> ''win32''; platform w \<noteq> ''darwin''; located w = None\<rbrakk> \<Longrightarrow> P"
    and "\<lbrakk>platform w = ''win32'' \<or> platform w = ''darwin''; located w = None\<rbrakk> \<Longrightarrow> P"
    and "\<And>folder. \<lbrakk>install_folder w = Some folder; \<not> existsSync (fs w) (sourceScript w)\<rbrakk> \<Longrightarrow> P"
    and "\<And>folder m. \<lbrakk>install_folder w = Some folder; existsSync (fs w) (sourceScript w);
            \<not> existsSync (fs w) folder; mkdirSync w (fs w) folder = Inl m\<rbrakk> \<Longrightarrow> P"
    and "\<And>folder f. \<lbrakk>install_folder w = Some folder; fs_at_copy w = Some f\<rbrakk> \<Longrightarrow> P"
  shows P
proof (cases "located w")
  case None
  then show ?thesis using assms(1,2) by blast
next
  case (Some root)
  then obtain folder where fo: "install_folder w = Some folder"
    using supported_folder by blast
  show ?thesis
  proof (cases "existsSync (fs w) (sourceScript w)")
    case False
    with fo show ?thesis using assms(3) by blast
  next
    case src: True
    show ?thesis
    proof (cases "existsSync (fs w) folder")
      case True
      with fo src have "fs_at_copy w = Some (fs w)" by (simp add: fs_at_copy_def)
      with fo show ?thesis using assms(5) by blast
    next
      case False
      show ?thesis
      proof (cases "mkdirSync w (fs w) folder")
        case (Inl m)
        with fo src False show ?thesis using assms(4) by blast
      next
        case (Inr f)
        with fo src False have "fs_at_copy w = Some f" by (simp add: fs_at_copy_def)
        with fo show ?thesis using assms(5) by blast
      qed
    qed
  qed
qed



text \<open>The six ways through the copy stage.\<close>

lemma copy_stage_win_elevated:
  assumes "platform w = ''win32''" and "fst (exec w f (powershell_command s d)) = Exited 0"
  shows "copy_stage w evs f s d =
           succeed w (evs @ [Log (''Installing bridge script to '' @ d @ ''...''),
                             ExecSync (powershell_command s d) (Exited 0)])
             (snd (exec w f (powershell_command s d)))"
  using assms by (simp add: copy_stage_def Let_def exec_error_def)

lemma copy_stage_win_fallback:
  assumes "platform w = ''win32''" and "fst (exec w f (powershell_command s d)) = e"
    and "e \<noteq> Exited 0"
    and "copyFileSync w (snd (exec w f (powershell_command s d))) s d = Inr f2"
  shows "copy_stage w evs f s d =
           succeed w (evs @ [Log (''Installing bridge script to '' @ d @ ''...''),
                             ExecSync (powershell_command s d) e,
                             Log ''Elevated copy failed, trying normal copy...'',
                             CopyFileSync s d None]) f2"
  using assms by (auto simp: copy_stage_def Let_def split: option.splits)

lemma copy_stage_win_failed:
  assumes "platform w = ''win32''" and "fst (exec w f (powershell_command s d)) = e"
    and "e \<noteq> Exited 0"
    and "copyFileSync w (snd (exec w f (powershell_command s d))) s d = Inl m"
  shows "copy_stage w evs f s d =
           fail_copy w (evs @ [Log (''Installing bridge script to '' @ d @ ''...''),
                               ExecSync (powershell_command s d) e,
                               Log ''Elevated copy failed, trying normal copy...'',
                               CopyFileSync s d (Some m)])
             (snd (exec w f (powershell_command s d))) m s d"
  using assms by (auto simp: copy_stage_def Let_def split: option.splits)

lemma copy_stage_mac_direct:
  assumes "platform w = ''darwin''" and "copyFileSync w f s d = Inr f1"
  shows "copy_stage w evs f s d =
           succeed w (evs @ [Log (''Installing bridge script to '' @ d @ ''...''),
                             CopyFileSync s d None]) f1"
  using assms by (simp add: copy_stage_def Let_def)

lemma copy_stage_mac_sudo:
  assumes "platform w = ''darwin''" and "copyFileSync w f s d = Inl m"
    and "fst (exec w f (sudo_command s d)) = Exited 0"
  shows "copy_stage w evs f s d =
           succeed w (evs @ [Log (''Installing bridge script to '' @ d @ ''...''),
                             CopyFileSync s d (Some m),
                             Err ''Normal copy failed. Trying with elevated privileges...'',
                             ExecSync (sudo_command s d) (Exited 0)])
             (snd (exec w f (sudo_command s d)))"
  using assms by (simp add: copy_stage_def Let_def exec_error_def)

lemma copy_stage_mac_failed:
  assumes "platform w = ''darwin''" and "copyFileSync w f s d = Inl m"
    and "fst (exec w f (sudo_command s d)) = e" and "e \<noteq> Exited 0"
    and "exec_error (sudo_command s d) e = Some m2"
  shows "copy_stage w evs f s d =
           fail_copy w (evs @ [Log (''Installing bridge script to '' @ d @ ''...''),
                               CopyFileSync s d (Some m),
                               Err ''Normal copy failed. Trying with elevated privileges...'',
                               ExecSync (sudo_command s d) e])
             (snd (exec w f (sudo_command s d))) m2 s d"
  using assms by (auto simp: copy_stage_def Let_def split: option.splits)

lemma copy_cases [consumes 2, case_names win_elevated win_fallback win_failed
    mac_direct mac_sudo mac_failed]:
  fixes w :: world
  defines "src \<equiv> sourceScript w"
  assumes "install_folder w = Some folder" and "fs_at_copy w = Some f"
  defines "dst \<equiv> destinationScript (platform w) folder"
  defines "pre \<equiv> events_before_copy w folder @ [installing_line dst]"
  assumes "\<lbrakk>platform w = ''win32''; fst (exec w f (powershell_command src dst)) = Exited 0;
       install_bridge w =
         succeed w (pre @ [ExecSync (powershell_command src dst) (Exited 0)])
           (snd (exec w f (powershell_command src dst)))\<rbrakk> \<Longrightarrow> P"
    and "\<And>e f2. \<lbrakk>platform w = ''win32''; fst (exec w f (powershell_command src dst)) = e;
       e \<noteq> Exited 0;
       copyFileSync w (snd (exec w f (powershell_command src dst))) src dst = Inr f2;
       install_bridge w =
         succeed w (pre @ [ExecSync (powershell_command src dst) e,
                           Log ''Elevated copy failed, trying normal copy...'',
                           CopyFileSync src dst None]) f2\<rbrakk> \<Longrightarrow> P"
    and "\<And>e m. \<lbrakk>platform w = ''win32''; fst (exec w f (powershell_command src dst)) = e;
       e \<noteq> Exited 0;
       copyFileSync w (snd (exec w f (powershell_command src dst))) src dst = Inl m;
       install_bridge w =
         fail_copy w (pre @ [ExecSync (powershell_command src dst) e,
                             Log ''Elevated copy failed, trying normal copy...'',
                             CopyFileSync src dst (Some m)])
           (snd (exec w f (powershell_command src dst))) m src dst\<rbrakk> \<Longrightarrow> P"
    and "\<And>f1. \<lbrakk>platform w = ''darwin''; copyFileSync w f src dst = Inr f1;
       install_bridge w = succeed w (pre @ [CopyFileSync src dst None]) f1\<rbrakk> \<Longrightarrow> P"
    and "\<And>m. \<lbrakk>platform w = ''darwin''; copyFileSync w f src dst = Inl m;
       fst (exec w f (sudo_command src dst)) = Exited 0;
       install_bridge w =
         succeed w (pre @ [CopyFileSync src dst (Some m),
                           Err ''Normal copy failed. Trying with elevated privileges...'',
                           ExecSync (sudo_command src dst) (Exited 0)])
           (snd (exec w f (sudo_command src dst)))\<rbrakk> \<Longrightarrow> P"
    and "\<And>m e m2. \<lbrakk>platform w = ''darwin''; copyFileSync w f src dst = Inl m;
       fst (exec w f (sudo_command src dst)) = e; e \<noteq> Exited 0;
       exec_error (sudo_command src dst) e = Some m2;
       install_bridge w =
         fail_copy w (pre @ [CopyFileSync src dst (Some m),
                             Err ''Normal copy failed. Trying with elevated privileges...'',
                             ExecSync (sudo_command src dst) e])
           (snd (exec w f (sudo_command src dst))) m2 src dst\<rbrakk> \<Longrightarrow> P"
  shows P
proof -
  have r: "install_bridge w = copy_stage w (events_before_copy w folder) f src dst"
    unfolding src_def dst_def using assms(2,3) by (rule reaches_copy)
  from assms(2) have "platform w = ''win32'' \<or> platform w = ''darwin''"
    by (rule install_folder_supported)
  then show P
  proof
    assume p: "platform w = ''win32''"
    show P
    proof (cases "fst (exec w f (powershell_command src dst)) = Exited 0")
      case True
      with p show P
        using assms(6) by (simp add: r copy_stage_win_elevated pre_def installing_line_def)
    next
      case False
      show P
      proof (cases "copyFileSync w (snd (exec w f (powershell_command src dst))) src dst")
        case (Inl m)
        show P
          by (rule assms(8) [OF p refl False Inl])
             (simp add: r copy_stage_win_failed [OF p refl False Inl] pre_def installing_line_def)
      next
        case (Inr f2)
        show P
          by (rule assms(7) [OF p refl False Inr])
             (simp add: r copy_stage_win_fallback [OF p refl False Inr] pre_def installing_line_def)
      qed
    qed
  next
    assume p: "platform w = ''darwin''"
    show P
    proof (cases "copyFileSync w f src dst")
      case (Inr f1)
      show P
        by (rule assms(9) [OF p Inr])
           (simp add: r copy_stage_mac_direct [OF p Inr] pre_def installing_line_def)
    next
      case (Inl m)
      show P
      proof (cases "fst (exec w f (sudo_command src dst)) = Exited 0")
        case True
        show P
          by (rule assms(10) [OF p Inl True])
             (simp add: r copy_stage_mac_sudo [OF p Inl True] pre_def installing_line_def)
      next
        case False
        then obtain m2 where
          m2: "exec_error (sudo_command src dst) (fst (exec w f (sudo_command src dst))) = Some m2"
          using exec_error_some by blast
        show P
          by (rule assms(11) [OF p Inl refl False m2])
             (simp add: r copy_stage_mac_failed [OF p Inl refl False m2] pre_def installing_line_def)
      qed
    qed
  qed
qed

subsection \<open>Creating the destination folder\<close>

text \<open>What a successful \<open>mkdirSync\<close> leaves.\<close>

lemma fold_mkdir:
  "fold (\<lambda>q g. if g q = None then g(q \<mapsto> Dir) else g) qs f x =
     (if x \<in> set qs \<and> f x = None then Some Dir else f x)"
  by (induction qs arbitrary: f) auto

lemma mkdirSync_result:
  assumes "mkdirSync w f p = Inr f'"
  shows "f' x = (if x \<in> set (dir_chain (sep (platform w)) p) \<and> f x = None then Some Dir else f x)"
    and "x \<in> set (dir_chain (sep (platform w)) p) \<Longrightarrow> f' x = Some Dir"
proof -
  from assms have
    nf: "\<not> list_ex (\<lambda>q. is_file (f q)) (dir_chain (sep (platform w)) p)" and
    f': "f' = fold (\<lambda>q g. if g q = None then g(q \<mapsto> Dir) else g) (dir_chain (sep (platform w)) p) f"
    by (auto simp: mkdirSync_def split: option.splits if_splits)
  show 1: "f' x = (if x \<in> set (dir_chain (sep (platform w)) p) \<and> f x = None then Some Dir else f x)"
    by (simp add: f' fold_mkdir)
  assume x: "x \<in> set (dir_chain (sep (platform w)) p)"
  with nf have "\<not> is_file (f x)" by (auto simp: list_ex_iff)
  then have "f x = None \<or> f x = Some Dir"
    by (auto simp: is_file_def split: option.splits node.splits)
  with x show "f' x = Some Dir" by (auto simp: 1)
qed

lemma dir_chain_self: "p \<noteq> [] \<Longrightarrow> p \<in> set (dir_chain s p)"
  by (simp add: dir_chain_def)

lemma dir_chain_prefix: "q \<in> set (dir_chain s p) \<Longrightarrow> prefix q p"
  by (auto simp: dir_chain_def in_set_prefixes)

lemma dir_chain_ancestor: "q \<noteq> [] \<Longrightarrow> q \<in> set (dir_chain s (q @ s # rest))"
  by (simp add: dir_chain_def in_set_prefixes)

lemma is_file_iff: "is_file n \<longleftrightarrow> (\<exists>c. n = Some (File c))"
  by (cases n) (auto simp: is_file_def split: node.splits)

lemma mkdirSync_allowed:
  assumes "mkdir_refused w f p = None"
    and "\<And>q c. prefix q p \<Longrightarrow> f q \<noteq> Some (File c)"
  shows "\<exists>f'. mkdirSync w f p = Inr f'"
proof -
  have "\<not> is_file (f q)" if "q \<in> set (dir_chain (sep (platform w)) p)" for q
  proof -
    from that have "prefix q p" by (rule dir_chain_prefix)
    then have "\<And>c. f q \<noteq> Some (File c)" by (rule assms(2))
    then show ?thesis by (cases "f q") (auto simp: is_file_def split: node.splits)
  qed
  then have "\<not> list_ex (\<lambda>q. is_file (f q)) (dir_chain (sep (platform w)) p)"
    by (simp add: list_ex_iff)
  with assms(1) show ?thesis by (simp add: mkdirSync_def)
qed


subsection \<open>The console lines of each way\<close>

lemma find_probes_quiet:
  "err_lines (snd (find_afterEffectsPath f ps)) = [] \<and>
   \<not> list_ex (\<lambda>e. e = Log m) (snd (find_afterEffectsPath f ps))"
  by (induction ps) auto

lemma probes_quiet [simp]:
  "err_lines (probes w) = []" "\<not> list_ex (\<lambda>e. e = Log m) (probes w)"
  by (simp_all add: probes_def find_probes_quiet)

lemma events_before_copy_quiet [simp]:
  "err_lines (events_before_copy w folder) = []"
  "\<not> list_ex (\<lambda>e. e = Log ''Bridge script installed successfully!'') (events_before_copy w folder)"
  by (simp_all add: events_before_copy_def)

lemma installing_line_quiet [simp]:
  "err_lines (installing_line d # evs) = err_lines evs"
  "installing_line d \<noteq> Log ''Bridge script installed successfully!''"
  by (simp_all add: installing_line_def)

lemma succeed_lines:
  "err_lines (events (succeed w evs f)) = err_lines evs"
  "list_ex (\<lambda>e. e = Log ''Bridge script installed successfully!'') (events (succeed w evs f))"
  by (simp_all add: succeed_def)

lemma fail_copy_lines:
  "err_lines (events (fail_copy w evs f m s d)) =
     err_lines evs @
     [''Error installing script: '' @ m, CHR 0x0A # ''Please try manual installation:'',
      ''1. Copy: '' @ s, ''2. To: '' @ d] @
     (if platform w = ''win32'' then
        [''3. You may need to run as administrator or use File Explorer with admin rights'']
      else if platform w = ''darwin'' then
        [''3. You may need to use sudo or run with administrator privileges'']
      else [])"
  "list_ex (\<lambda>e. e = Log ''Bridge script installed successfully!'') (events (fail_copy w evs f m s d)) =
     list_ex (\<lambda>e. e = Log ''Bridge script installed successfully!'') evs"
  by (simp_all add: fail_copy_def)

lemma announces_unsupported:
  assumes "platform w \<noteq> ''win32''" "platform w \<noteq> ''darwin''" "located w = None"
  shows "announces k (events (install_bridge w)) \<longleftrightarrow> k = UnsupportedPlatform"
  using assms by (cases k) (simp_all add: located_none_unsupported announces_def)

lemma announces_not_found:
  assumes "platform w = ''win32'' \<or> platform w = ''darwin''" "located w = None"
  shows "announces k (events (install_bridge w)) \<longleftrightarrow> k = InstallationNotFound"
  using assms
  by (cases k) (auto simp: install_bridge_not_found announces_def target_hint_def)

lemma announces_missing_source:
  assumes "install_folder w = Some folder" "\<not> existsSync (fs w) (sourceScript w)"
  shows "announces k (events (install_bridge w)) \<longleftrightarrow> k = MissingSource"
  using assms
  by (cases k) (simp_all add: install_bridge_missing_source announces_def)

lemma announces_mkdir_failed:
  assumes "install_folder w = Some folder" "existsSync (fs w) (sourceScript w)"
    "\<not> existsSync (fs w) folder" "mkdirSync w (fs w) folder = Inl m"
  shows "announces k (events (install_bridge w)) \<longleftrightarrow> k = DirectoryCreationFailed"
  using assms
  by (cases k) (simp_all add: install_bridge_mkdir_failed announces_def)

lemma announces_copy:
  assumes "install_folder w = Some folder" "fs_at_copy w = Some f"
  shows "announces k (events (install_bridge w)) \<longleftrightarrow> k = terminal (install_bridge w)"
  using assms
proof (cases rule: copy_cases)
  case win_elevated
  then show ?thesis by (cases k) (simp_all add: announces_def succeed_lines)
next
  case (win_fallback e f2)
  then show ?thesis by (cases k) (simp_all add: announces_def succeed_lines)
next
  case (win_failed e m)
  then show ?thesis by (cases k) (simp_all add: announces_def fail_copy_lines)
next
  case (mac_direct f1)
  then show ?thesis by (cases k) (simp_all add: announces_def succeed_lines)
next
  case (mac_sudo m)
  then show ?thesis by (cases k) (simp_all add: announces_def succeed_lines)
next
  case (mac_failed m e m2)
  then show ?thesis by (cases k) (simp_all add: announces_def fail_copy_lines)
qed

lemma terminal_copy:
  assumes "install_folder w = Some folder" "fs_at_copy w = Some f"
  shows "(terminal (install_bridge w) = Done \<longleftrightarrow>
            copy_succeeds w f (sourceScript w) (destinationScript (platform w) folder)) \<and>
         (terminal (install_bridge w) \<noteq> Done \<longrightarrow> terminal (install_bridge w) = CopyFailed) \<and>
         (exit_code (install_bridge w) = (if terminal (install_bridge w) = Done then 0 else 1))"
  using assms
proof (cases rule: copy_cases)
  case win_elevated
  then show ?thesis by (simp add: copy_succeeds_def)
next
  case (win_fallback e f2)
  then show ?thesis by (simp add: copy_succeeds_def)
next
  case (win_failed e m)
  then show ?thesis by (simp add: copy_succeeds_def)
next
  case (mac_direct f1)
  then show ?thesis by (simp add: copy_succeeds_def)
next
  case (mac_sudo m)
  then show ?thesis by (simp add: copy_succeeds_def)
next
  case (mac_failed m e m2)
  then show ?thesis by (simp add: copy_succeeds_def)
qed

subsection \<open>The file system after a successful run\<close>






lemma destinationFolder_shape:
  assumes "root \<noteq> []" and "last root \<noteq> sep plat"
  shows "destinationFolder plat root =
           (if plat = ''win32'' then
              Some (root @ CHR 0x5C # ''Support Files'' @ CHR 0x5C # ''Scripts'' @ CHR 0x5C # ''ScriptUI Panels'')
            else if plat = ''darwin'' then Some (root @ ''/Scripts/ScriptUI Panels'')
            else None)"
  using assms by (auto simp: destinationFolder_def sep_def)



lemma destinationFolder_nonempty: "destinationFolder plat root = Some folder \<Longrightarrow> folder \<noteq> []"
  by (auto simp: destinationFolder_def split: if_splits)





subsection \<open>The sample worlds\<close>

lemmas win_paths = win_root_def win_root_2023_def win_folder_def win_target_def win_dirname_def win_source_def

lemmas mac_paths = mac_root_def mac_folder_def mac_target_def mac_dirname_def mac_source_def

lemma inert_apply [simp]: "inert e g c = (e, g)"
  by (simp add: inert_def)

lemma sample_world_sel [simp]:
  "platform (sample_world plat dir f mk cp e) = plat"
  "dirname (sample_world plat dir f mk cp e) = dir"
  "fs (sample_world plat dir f mk cp e) = f"
  "mkdir_refused (sample_world plat dir f mk cp e) = (\<lambda>g p. mk)"
  "copy_refused (sample_world plat dir f mk cp e) = (\<lambda>g s d. cp)"
  "exec (sample_world plat dir f mk cp e) = e"
  "detached (sample_world plat dir f mk cp e) = (\<lambda>g c. None)"
  by (simp_all add: sample_world_def)

lemma win_source_eq: "sourceScript (sample_world ''win32'' win_dirname f mk cp e) = win_source"
  by (simp add: sourceScript_def sep_def win_paths)

lemma win_folder_eq: "destinationFolder ''win32'' win_root = Some win_folder"
  by (simp add: destinationFolder_def sep_def win_paths)

lemma win_target_eq: "destinationScript ''win32'' win_folder = win_target"
  by (simp add: destinationScript_def sep_def win_paths)

lemma win_located: "located (sample_world ''win32'' win_dirname win_fs mk cp e) = Some win_root"
  by (simp add: located_def getPossibleAfterEffectsPaths_def existsSync_def win_fs_def win_paths)

lemma win_install_folder:
  "install_folder (sample_world ''win32'' win_dirname win_fs mk cp e) = Some win_folder"
  by (simp add: install_folder_def win_located win_folder_eq)

lemma win_fs_at_copy:
  "fs_at_copy (sample_world ''win32'' win_dirname win_fs mk cp e) = Some win_fs"
proof -
  have "existsSync win_fs win_source" "existsSync win_fs win_folder"
    by (simp_all add: existsSync_def win_fs_def win_paths)
  then show ?thesis
    by (simp add: fs_at_copy_def win_install_folder win_source_eq)
qed

lemma win_copy_ok:
  "copyFileSync (sample_world ''win32'' win_dirname win_fs mk None e) win_fs win_source win_target
     = Inr (win_fs(win_target \<mapsto> File ''new panel''))"
proof -
  have "win_fs win_source = Some (File ''new panel'')" "win_fs win_target = Some (File ''old panel'')"
    by (simp_all add: win_fs_def win_paths)
  then show ?thesis by (simp add: copyFileSync_def)
qed

lemma mac_source_eq: "sourceScript (sample_world ''darwin'' mac_dirname f mk cp e) = mac_source"
  by (simp add: sourceScript_def sep_def mac_paths)

lemma mac_folder_eq: "destinationFolder ''darwin'' mac_root = Some mac_folder"
  by (simp add: destinationFolder_def sep_def mac_paths)

lemma mac_target_eq: "destinationScript ''darwin'' mac_folder = mac_target"
  by (simp add: destinationScript_def sep_def mac_paths)

lemma mac_located:
  assumes "f mac_root = Some Dir" and "f ''/Applications/Adobe After Effects 2025'' = None"
  shows "located (sample_world ''darwin'' mac_dirname f mk cp e) = Some mac_root"
  using assms by (simp add: located_def getPossibleAfterEffectsPaths_def existsSync_def mac_paths)

lemma mac_probes:
  assumes "f mac_root = Some Dir" and "f ''/Applications/Adobe After Effects 2025'' = None"
  shows "probes (sample_world ''darwin'' mac_dirname f mk cp e) =
           [ExistsSync ''/Applications/Adobe After Effects 2025'' False, ExistsSync mac_root True]"
  using assms by (simp add: probes_def getPossibleAfterEffectsPaths_def existsSync_def mac_paths)

lemma mac_install_folder:
  assumes "f mac_root = Some Dir" and "f ''/Applications/Adobe After Effects 2025'' = None"
  shows "install_folder (sample_world ''darwin'' mac_dirname f mk cp e) = Some mac_folder"
  using assms by (simp add: install_folder_def mac_located mac_folder_eq)

lemma mac_fs_lookup:
  "mac_fs mac_root = Some Dir"
  "mac_fs ''/Applications/Adobe After Effects 2025'' = None"
  "mac_fs mac_folder = Some Dir"
  "mac_fs mac_source = Some (File ''new panel'')"
  "mac_fs mac_target = Some (File ''old panel'')"
  by (simp_all add: mac_fs_def mac_bare_fs_def mac_paths)

lemma mac_bare_fs_lookup:
  "mac_bare_fs mac_root = Some Dir"
  "mac_bare_fs ''/Applications/Adobe After Effects 2025'' = None"
  "mac_bare_fs mac_folder = None"
  "mac_bare_fs mac_source = Some (File ''new panel'')"
  "mac_bare_fs mac_target = None"
  by (simp_all add: mac_bare_fs_def mac_paths)

lemma mac_unbuilt_fs_lookup:
  "mac_unbuilt_fs mac_root = Some Dir"
  "mac_unbuilt_fs ''/Applications/Adobe After Effects 2025'' = None"
  "mac_unbuilt_fs mac_source = None"
  by (simp_all add: mac_unbuilt_fs_def mac_paths)

lemma mac_fs_at_copy:
  "fs_at_copy (sample_world ''darwin'' mac_dirname mac_fs mk cp e) = Some mac_fs"
  by (simp add: fs_at_copy_def mac_install_folder mac_fs_lookup mac_source_eq existsSync_def)

lemma mac_bare_no_file_in_chain:
  assumes "prefix q mac_folder"
  shows "mac_bare_fs q \<noteq> Some (File c)"
proof
  assume "mac_bare_fs q = Some (File c)"
  then have "q = mac_source"
    by (simp add: mac_bare_fs_def split: if_splits)
  with assms show False by (simp add: mac_paths)
qed

lemma win_fallback_run:
  "install_bridge win_fallback_world =
     succeed win_fallback_world
       (events_before_copy win_fallback_world win_folder @
        [Log (''Installing bridge script to '' @ win_target @ ''...''),
         ExecSync (powershell_command win_source win_target) (Exited 1),
         Log ''Elevated copy failed, trying normal copy...'',
         CopyFileSync win_source win_target None])
       (win_fs(win_target \<mapsto> File ''new panel''))"
proof -
  let ?w = win_fallback_world
  have p: "platform ?w = ''win32''" by (simp add: win_fallback_world_def)
  have src: "sourceScript ?w = win_source"
    by (simp add: win_fallback_world_def win_source_eq)
  have fo: "install_folder ?w = Some win_folder"
    by (simp add: win_fallback_world_def win_install_folder)
  have c: "fs_at_copy ?w = Some win_fs"
    by (simp add: win_fallback_world_def win_fs_at_copy)
  have x: "exec ?w g k = (Exited 1, g)" for g k
    by (simp add: win_fallback_world_def inert_def)
  have cp: "copyFileSync ?w (snd (exec ?w win_fs (powershell_command win_source win_target)))
              win_source win_target = Inr (win_fs(win_target \<mapsto> File ''new panel''))"
    by (simp add: x) (simp add: win_fallback_world_def win_copy_ok)
  have "install_bridge ?w =
          copy_stage ?w (events_before_copy ?w win_folder) win_fs win_source win_target"
    using reaches_copy [OF fo c] by (simp add: src p win_target_eq)
  also have "\<dots> =
     succeed ?w
       (events_before_copy ?w win_folder @
        [Log (''Installing bridge script to '' @ win_target @ ''...''),
         ExecSync (powershell_command win_source win_target) (Exited 1),
         Log ''Elevated copy failed, trying normal copy...'',
         CopyFileSync win_source win_target None])
       (win_fs(win_target \<mapsto> File ''new panel''))"
    by (rule copy_stage_win_fallback [OF p _ _ cp]) (simp_all add: x)
  finally show ?thesis .
qed


lemma decimal_years:
  "decimal 2025 = ''2025''" "decimal 2024 = ''2024''" "decimal 2023 = ''2023''"
  "decimal 2022 = ''2022''" "decimal 2021 = ''2021''"
  by (simp_all add: decimal.simps)

subsection \<open>The elevated command on Windows\<close>



text \<open>
  On Windows the command that \<^verbatim>\<open>execSync\<close> waits for is the launcher, and it ends as
  soon as the elevated process is started.  So the script can print its success line
  and end with exit code 0 while the copy process is still running and the destination
  still holds the old file.  The macOS command leaves no such gap: \<^verbatim>\<open>sudo\<close> ends with
  \<^verbatim>\<open>cp\<close>.
\<close>

lemma win_detached_run:
  "install_bridge win_detached_world =
     succeed win_detached_world
       (events_before_copy win_detached_world win_folder @
        [Log (''Installing bridge script to '' @ win_target @ ''...''),
         ExecSync (powershell_command win_source win_target) (Exited 0)])
       win_fs"
proof -
  let ?w = win_detached_world
  have p: "platform ?w = ''win32''" by (simp add: win_detached_world_def)
  have src: "sourceScript ?w = win_source"
    by (simp add: win_detached_world_def win_source_eq)
  have fo: "install_folder ?w = Some win_folder"
    by (simp add: win_detached_world_def win_install_folder)
  have c: "fs_at_copy ?w = Some win_fs"
    by (simp add: win_detached_world_def win_fs_at_copy)
  have x: "exec ?w g k = (Exited 0, g)" for g k
    by (simp add: win_detached_world_def inert_def)
  have "install_bridge ?w =
          copy_stage ?w (events_before_copy ?w win_folder) win_fs win_source win_target"
    using reaches_copy [OF fo c] by (simp add: src p win_target_eq)
  also have "\<dots> =
     succeed ?w
       (events_before_copy ?w win_folder @
        [Log (''Installing bridge script to '' @ win_target @ ''...''),
         ExecSync (powershell_command win_source win_target) (Exited 0)])
       (snd (exec ?w win_fs (powershell_command win_source win_target)))"
    by (rule copy_stage_win_elevated [OF p]) (simp add: x)
  finally show ?thesis by (simp add: x)
qed

lemma windows_reports_before_copy_ends:
  "copy_process win_detached_world win_fs (RunAs_Copy_Item win_source win_target) = Running \<and>
   ExecSync (command_line (RunAs_Copy_Item win_source win_target)) (Exited 0)
     \<in> set (events (install_bridge win_detached_world)) \<and>
   exit_code (install_bridge win_detached_world) = 0 \<and>
   terminal (install_bridge win_detached_world) = Done \<and>
   final_fs (install_bridge win_detached_world) win_target = Some (File ''old panel'')"
proof -
  have "copy_process win_detached_world win_fs (RunAs_Copy_Item win_source win_target) = Running"
    by (simp add: win_detached_world_def)
  moreover have "win_fs win_target = Some (File ''old panel'')"
    by (simp add: win_fs_def win_paths)
  ultimately show ?thesis
    by (simp add: win_detached_run) (simp add: succeed_def)
qed

section \<open>The claims\<close>

text \<open>
  C1: the order of the copy attempts depends on the platform.  In a run that reaches the
  copy stage, Windows first starts the elevated copy and calls the unprivileged
  \<^verbatim>\<open>copyFileSync\<close> only when that command did not end with status 0; macOS first calls
  \<^verbatim>\<open>copyFileSync\<close> and starts \<^verbatim>\<open>sudo cp\<close> only when the copy threw.  A failed first
  attempt alone ends nothing: the run exits with 0 as soon as one attempt succeeds, and
  it ends as a copy failure with exit code 1 only when both attempts have failed.
\<close>

theorem copy_attempt_order:
  fixes w :: world
  defines "r \<equiv> install_bridge w"
  assumes "install_folder w = Some folder" and "fs_at_copy w = Some f"
  defines "src \<equiv> sourceScript w" and "dst \<equiv> destinationScript (platform w) folder"
  defines "elevated \<equiv> powershell_command src dst" and "sudo \<equiv> sudo_command src dst"
  shows "(platform w = ''win32'' \<longrightarrow>
            (fst (exec w f elevated) = Exited 0 \<longrightarrow>
               attempts (events r) = [ExecSync elevated (Exited 0)] \<and> exit_code r = 0) \<and>
            (fst (exec w f elevated) \<noteq> Exited 0 \<longrightarrow>
               (case copyFileSync w (snd (exec w f elevated)) src dst of
                  Inr f2 \<Rightarrow>
                    attempts (events r) =
                      [ExecSync elevated (fst (exec w f elevated)), CopyFileSync src dst None] \<and>
                    exit_code r = 0
                | Inl m \<Rightarrow>
                    attempts (events r) =
                      [ExecSync elevated (fst (exec w f elevated)), CopyFileSync src dst (Some m)] \<and>
                    exit_code r = 1 \<and> terminal r = CopyFailed))) \<and>
         (platform w = ''darwin'' \<longrightarrow>
            (case copyFileSync w f src dst of
               Inr f1 \<Rightarrow> attempts (events r) = [CopyFileSync src dst None] \<and> exit_code r = 0
             | Inl m \<Rightarrow>
                 (fst (exec w f sudo) = Exited 0 \<longrightarrow>
                    attempts (events r) = [CopyFileSync src dst (Some m), ExecSync sudo (Exited 0)] \<and>
                    exit_code r = 0) \<and>
                 (fst (exec w f sudo) \<noteq> Exited 0 \<longrightarrow>
                    attempts (events r) =
                      [CopyFileSync src dst (Some m), ExecSync sudo (fst (exec w f sudo))] \<and>
                    exit_code r = 1 \<and> terminal r = CopyFailed)))"
proof -
  have ne: "''darwin'' \<noteq> ''win32''" by simp
  note defs = r_def src_def dst_def elevated_def sudo_def
  from assms(2,3) show ?thesis
  proof (cases rule: copy_cases)
    case win_elevated
    then show ?thesis by (simp add: defs)
  next
    case (win_fallback e f2)
    then show ?thesis by (simp add: defs)
  next
    case (win_failed e m)
    then show ?thesis by (simp add: defs)
  next
    case (mac_direct f1)
    with ne show ?thesis by (simp add: defs)
  next
    case (mac_sudo m)
    with ne show ?thesis by (simp add: defs)
  next
    case (mac_failed m e m2)
    with ne show ?thesis by (simp add: defs)
  qed
qed

theorem copy_attempt_order_witness:
  "fs_at_copy win_fallback_world = Some win_fs \<and>
   fst (exec win_fallback_world win_fs (powershell_command win_source win_target)) = Exited 1 \<and>
   attempts (events (install_bridge win_fallback_world)) =
     [ExecSync (powershell_command win_source win_target) (Exited 1),
      CopyFileSync win_source win_target None] \<and>
   exit_code (install_bridge win_fallback_world) = 0 \<and>
   fs_at_copy mac_sudo_world = Some mac_fs \<and>
   attempts (events (install_bridge mac_sudo_world)) =
     [CopyFileSync mac_source mac_target (Some ''EACCES: permission denied''),
      ExecSync (sudo_command mac_source mac_target) (Exited 0)] \<and>
   exit_code (install_bridge mac_sudo_world) = 0"
proof -
  have win:
    "fs_at_copy win_fallback_world = Some win_fs \<and>
     fst (exec win_fallback_world win_fs (powershell_command win_source win_target)) = Exited 1 \<and>
     attempts (events (install_bridge win_fallback_world)) =
       [ExecSync (powershell_command win_source win_target) (Exited 1),
        CopyFileSync win_source win_target None] \<and>
     exit_code (install_bridge win_fallback_world) = 0"
    using copy_attempt_order [of win_fallback_world win_folder win_fs]
    by (simp add: win_fallback_world_def win_install_folder win_fs_at_copy win_source_eq
          win_target_eq win_copy_ok)
  have cp: "copyFileSync mac_sudo_world mac_fs mac_source mac_target =
              Inl ''EACCES: permission denied''"
    by (simp add: copyFileSync_def mac_sudo_world_def)
  have x: "fst (exec mac_sudo_world mac_fs (sudo_command mac_source mac_target)) = Exited 0"
    by (simp add: mac_sudo_world_def copying_def mac_fs_lookup)
  have fo: "install_folder mac_sudo_world = Some mac_folder"
    by (simp add: mac_sudo_world_def mac_install_folder mac_fs_lookup)
  have c: "fs_at_copy mac_sudo_world = Some mac_fs"
    by (simp add: mac_sudo_world_def mac_fs_at_copy)
  have eqs: "platform mac_sudo_world = ''darwin''" "sourceScript mac_sudo_world = mac_source"
    by (simp_all add: mac_sudo_world_def mac_source_eq)
  have mac:
    "attempts (events (install_bridge mac_sudo_world)) =
       [CopyFileSync mac_source mac_target (Some ''EACCES: permission denied''),
        ExecSync (sudo_command mac_source mac_target) (Exited 0)] \<and>
     exit_code (install_bridge mac_sudo_world) = 0"
    using copy_attempt_order [OF fo c] by (simp add: eqs mac_target_eq cp x)
  from win c mac show ?thesis by simp
qed




text \<open>
  C3: the loop probes the candidate roots in list order, stops at the first one that
  exists and selects it, whatever exists further down the list; when none exists every
  candidate has been probed.  A run on a supported platform that finds no candidate
  prints the not-found error with the source path and the destination template holding
  the \<^verbatim>\<open>[VERSION]\<close> placeholder, and exits with 1.
\<close>

theorem locate_first_existing:
  "(case fst (find_afterEffectsPath f ps) of
      Some p \<Rightarrow>
        (\<exists>before after. ps = before @ p # after \<and> (\<forall>q\<in>set before. \<not> existsSync f q) \<and>
           existsSync f p \<and>
           snd (find_afterEffectsPath f ps) =
             map (\<lambda>q. ExistsSync q False) before @ [ExistsSync p True])
    | None \<Rightarrow>
        (\<forall>q\<in>set ps. \<not> existsSync f q) \<and>
        snd (find_afterEffectsPath f ps) = map (\<lambda>q. ExistsSync q False) ps) \<and>
   (getPossibleAfterEffectsPaths (platform w) \<noteq> [] \<and>
    (\<forall>q\<in>set (getPossibleAfterEffectsPaths (platform w)). \<not> existsSync (fs w) q) \<longrightarrow>
      install_bridge w =
        \<lparr>exit_code = 1, terminal = InstallationNotFound,
         events = map (\<lambda>q. ExistsSync q False) (getPossibleAfterEffectsPaths (platform w)) @
           [Err ''Error: Could not find After Effects installation.'',
            Err ''Please manually copy the bridge script to your After Effects ScriptUI Panels folder.'',
            Err ''Source: build/scripts/mcp-bridge-auto.jsx''] @
           (if platform w = ''win32'' then
              [Err (''Target: C:'' @ CHR 0x5C # ''Program Files'' @ CHR 0x5C # ''Adobe'' @
                    CHR 0x5C # ''Adobe After Effects [VERSION]'' @ CHR 0x5C # ''Support Files'' @
                    CHR 0x5C # ''Scripts'' @ CHR 0x5C # ''ScriptUI Panels'' @ [CHR 0x5C])]
            else
              [Err ''Target: /Applications/Adobe After Effects [VERSION]/Scripts/ScriptUI Panels/'']),
         final_fs = fs w\<rparr>)"
proof (intro conjI impI)
  show "case fst (find_afterEffectsPath f ps) of
      Some p \<Rightarrow>
        (\<exists>before after. ps = before @ p # after \<and> (\<forall>q\<in>set before. \<not> existsSync f q) \<and>
           existsSync f p \<and>
           snd (find_afterEffectsPath f ps) =
             map (\<lambda>q. ExistsSync q False) before @ [ExistsSync p True])
    | None \<Rightarrow>
        (\<forall>q\<in>set ps. \<not> existsSync f q) \<and>
        snd (find_afterEffectsPath f ps) = map (\<lambda>q. ExistsSync q False) ps"
  proof (cases "fst (find_afterEffectsPath f ps)")
    case None
    then have "\<forall>q\<in>set ps. \<not> existsSync f q" by (simp add: find_none_iff)
    with None show ?thesis by (simp add: find_none_probes)
  next
    case (Some p)
    from find_some_split [OF Some] Some show ?thesis by simp
  qed
next
  assume "getPossibleAfterEffectsPaths (platform w) \<noteq> [] \<and>
    (\<forall>q\<in>set (getPossibleAfterEffectsPaths (platform w)). \<not> existsSync (fs w) q)"
  then have p: "platform w = ''win32'' \<or> platform w = ''darwin''"
    and n: "\<forall>q\<in>set (getPossibleAfterEffectsPaths (platform w)). \<not> existsSync (fs w) q"
    by (auto simp: paths_empty_iff)
  from n have a: "located w = None" by (simp add: located_def find_none_iff)
  from n have "probes w = map (\<lambda>q. ExistsSync q False) (getPossibleAfterEffectsPaths (platform w))"
    unfolding probes_def by (rule find_none_probes)
  with a p show "install_bridge w =
        \<lparr>exit_code = 1, terminal = InstallationNotFound,
         events = map (\<lambda>q. ExistsSync q False) (getPossibleAfterEffectsPaths (platform w)) @
           [Err ''Error: Could not find After Effects installation.'',
            Err ''Please manually copy the bridge script to your After Effects ScriptUI Panels folder.'',
            Err ''Source: build/scripts/mcp-bridge-auto.jsx''] @
           (if platform w = ''win32'' then
              [Err (''Target: C:'' @ CHR 0x5C # ''Program Files'' @ CHR 0x5C # ''Adobe'' @
                    CHR 0x5C # ''Adobe After Effects [VERSION]'' @ CHR 0x5C # ''Support Files'' @
                    CHR 0x5C # ''Scripts'' @ CHR 0x5C # ''ScriptUI Panels'' @ [CHR 0x5C])]
            else
              [Err ''Target: /Applications/Adobe After Effects [VERSION]/Scripts/ScriptUI Panels/'']),
         final_fs = fs w\<rparr>"
    by (auto simp: install_bridge_not_found target_hint_def)
qed

theorem locate_first_existing_witness:
  "fst (find_afterEffectsPath win_fs (getPossibleAfterEffectsPaths ''win32'')) = Some win_root \<and>
   existsSync win_fs win_root_2023 \<and>
   snd (find_afterEffectsPath win_fs (getPossibleAfterEffectsPaths ''win32'')) =
     [ExistsSync (''C:'' @ CHR 0x5C # ''Program Files'' @ CHR 0x5C # ''Adobe'' @ CHR 0x5C #
                  ''Adobe After Effects 2025'') False,
      ExistsSync win_root True] \<and>
   exit_code (install_bridge (sample_world ''darwin'' mac_dirname Map.empty None None (inert (Exited 0)))) = 1"
proof -
  let ?w = "sample_world ''darwin'' mac_dirname Map.empty None None (inert (Exited 0))"
  have l: "fst (find_afterEffectsPath win_fs (getPossibleAfterEffectsPaths ''win32'')) = Some win_root"
    using win_located [of None None "inert (Exited 0)"] by (simp add: located_def)
  have e: "existsSync win_fs win_root_2023"
    by (simp add: existsSync_def win_fs_def win_paths)
  have n: "\<forall>q\<in>set (getPossibleAfterEffectsPaths (platform ?w)). \<not> existsSync (fs ?w) q"
    "getPossibleAfterEffectsPaths (platform ?w) \<noteq> []"
    by (simp_all add: getPossibleAfterEffectsPaths_def existsSync_def)
  from locate_first_existing [where f = win_fs and ps = "getPossibleAfterEffectsPaths ''win32''" and w = ?w] l e n
  show ?thesis
    by (simp add: getPossibleAfterEffectsPaths_def win_paths existsSync_def win_fs_def)
qed

text \<open>
  C4: on every platform other than \<^verbatim>\<open>win32\<close> and \<^verbatim>\<open>darwin\<close> the run prints the
  unsupported-platform error and exits with 1 at once: its events are the two error
  lines, so it makes no file system call at all.
\<close>

theorem unsupported_platform_exits_at_once:
  assumes "platform w \<noteq> ''win32''" and "platform w \<noteq> ''darwin''"
  shows "install_bridge w =
           \<lparr>exit_code = 1, terminal = UnsupportedPlatform,
            events =
              [Err ''Error: After Effects is not officially supported on this platform.'',
               Err ''After Effects is only available on Windows and macOS.''],
            final_fs = fs w\<rparr> \<and>
         filter is_fs_call (events (install_bridge w)) = []"
  using assms by (simp add: install_bridge_def paths_empty_iff is_fs_call_def)

theorem unsupported_platform_exits_at_once_witness:
  "install_bridge linux_world =
     \<lparr>exit_code = 1, terminal = UnsupportedPlatform,
      events =
        [Err ''Error: After Effects is not officially supported on this platform.'',
         Err ''After Effects is only available on Windows and macOS.''],
      final_fs = Map.empty\<rparr> \<and>
   filter is_fs_call (events (install_bridge linux_world)) = []"
  using unsupported_platform_exits_at_once [of linux_world]
  by (simp add: linux_world_def is_fs_call_def)

text \<open>
  C5: when the source script does not exist the run exits with 1 without any call that
  could change the file system, and leaves the file system as it found it.  When the
  installation was located, the run ends at the source check: it prints the expected
  path and the instruction to run the build first.
\<close>

theorem missing_source_leaves_no_trace:
  assumes "\<not> existsSync (fs w) (sourceScript w)"
  shows \<open>exit_code (install_bridge w) = 1 \<and>
         filter is_mutation (events (install_bridge w)) = [] \<and>
         final_fs (install_bridge w) = fs w \<and>
         (located w \<noteq> None \<longrightarrow>
            install_bridge w =
              \<lparr>exit_code = 1, terminal = MissingSource,
               events = probes w @
                 [ExistsSync (sourceScript w) False,
                  Err (''Error: Source script not found at '' @ sourceScript w),
                  Err ''Please run "npm run build" first to generate the script.''],
               final_fs = fs w\<rparr>)\<close>
proof (cases w rule: run_cases)
  case unsupported
  then show ?thesis by (simp add: located_none_unsupported is_mutation_def)
next
  case not_found
  then show ?thesis
    by (simp add: install_bridge_not_found target_hint_def is_mutation_def)
next
  case (missing_source folder)
  then show ?thesis
    by (simp add: install_bridge_missing_source is_mutation_def)
next
  case (mkdir_failed folder m)
  with assms show ?thesis by simp
next
  case (copy folder f)
  with assms show ?thesis by (simp add: source_missing_no_copy)
qed

theorem missing_source_leaves_no_trace_witness:
  \<open>\<not> existsSync mac_unbuilt_fs mac_source \<and>
   install_bridge (sample_world ''darwin'' mac_dirname mac_unbuilt_fs None None (inert (Exited 0))) =
     \<lparr>exit_code = 1, terminal = MissingSource,
      events =
        [ExistsSync ''/Applications/Adobe After Effects 2025'' False,
         ExistsSync mac_root True,
         ExistsSync mac_source False,
         Err (''Error: Source script not found at '' @ mac_source),
         Err ''Please run "npm run build" first to generate the script.''],
      final_fs = mac_unbuilt_fs\<rparr>\<close>
  using missing_source_leaves_no_trace
    [of "sample_world ''darwin'' mac_dirname mac_unbuilt_fs None None (inert (Exited 0))"]
  by (simp add: mac_source_eq existsSync_def mac_unbuilt_fs_lookup mac_located mac_probes)

text \<open>
  C6: in a run that has located the installation and found the source, a destination
  folder that exists is left alone (no \<^verbatim>\<open>mkdirSync\<close> call).  A missing one is created
  with \<^verbatim>\<open>recursive: true\<close>: on success every directory of its chain exists and nothing
  that existed has changed, and the run goes on to the copy stage; on failure the run
  prints the error with the hint at administrative privileges and exits with 1, with no
  copy attempt among its events.  The creation does succeed whenever the operating
  system does not refuse it and no regular file stands where a directory of the chain
  has to be: the run then calls \<^verbatim>\<open>mkdirSync\<close> and starts the copy stage on a file system
  in which the folder and all its parents are directories.
\<close>

theorem destination_folder_ensured:
  assumes "install_folder w = Some folder" and "existsSync (fs w) (sourceScript w)"
  shows "(existsSync (fs w) folder \<longrightarrow> filter is_mkdir (events (install_bridge w)) = []) \<and>
         (\<not> existsSync (fs w) folder \<longrightarrow>
            (case mkdirSync w (fs w) folder of
               Inl m \<Rightarrow>
                 install_bridge w =
                   \<lparr>exit_code = 1, terminal = DirectoryCreationFailed,
                    events = probes w @
                      [ExistsSync (sourceScript w) True, ExistsSync folder False,
                       MkdirSync folder (Some m),
                       Err (''Error creating destination folder: '' @ m),
                       Err ''You may need administrative privileges to install the script.''],
                    final_fs = fs w\<rparr>
             | Inr f \<Rightarrow>
                 (\<forall>q\<in>set (dir_chain (sep (platform w)) folder). f q = Some Dir) \<and>
                 (\<forall>q. fs w q \<noteq> None \<longrightarrow> f q = fs w q) \<and>
                 (\<forall>q. q \<notin> set (dir_chain (sep (platform w)) folder) \<longrightarrow> f q = fs w q) \<and>
                 filter is_mkdir (events (install_bridge w)) = [MkdirSync folder None] \<and>
                 install_bridge w =
                   copy_stage w
                     (probes w @ [ExistsSync (sourceScript w) True, ExistsSync folder False,
                                  MkdirSync folder None])
                     f (sourceScript w) (destinationScript (platform w) folder))) \<and>
         (\<not> existsSync (fs w) folder \<and> mkdir_refused w (fs w) folder = None \<and>
          (\<forall>q\<in>set (dir_chain (sep (platform w)) folder). \<not> is_file (fs w q)) \<longrightarrow>
            (\<exists>f. mkdirSync w (fs w) folder = Inr f \<and> fs_at_copy w = Some f \<and>
                 f folder = Some Dir \<and>
                 (\<forall>q\<in>set (dir_chain (sep (platform w)) folder). f q = Some Dir) \<and>
                 MkdirSync folder None \<in> set (events (install_bridge w))))"
proof (intro conjI impI)
  assume ex: "existsSync (fs w) folder"
  with assms have c: "fs_at_copy w = Some (fs w)" by (simp add: fs_at_copy_def)
  from assms(1) c show "filter is_mkdir (events (install_bridge w)) = []"
    by (cases rule: copy_cases)
       (simp_all add: ex succeed_def fail_copy_def events_before_copy_def installing_line_def
          is_mkdir_def)
next
  assume nex: "\<not> existsSync (fs w) folder"
  show "case mkdirSync w (fs w) folder of
               Inl m \<Rightarrow>
                 install_bridge w =
                   \<lparr>exit_code = 1, terminal = DirectoryCreationFailed,
                    events = probes w @
                      [ExistsSync (sourceScript w) True, ExistsSync folder False,
                       MkdirSync folder (Some m),
                       Err (''Error creating destination folder: '' @ m),
                       Err ''You may need administrative privileges to install the script.''],
                    final_fs = fs w\<rparr>
             | Inr f \<Rightarrow>
                 (\<forall>q\<in>set (dir_chain (sep (platform w)) folder). f q = Some Dir) \<and>
                 (\<forall>q. fs w q \<noteq> None \<longrightarrow> f q = fs w q) \<and>
                 (\<forall>q. q \<notin> set (dir_chain (sep (platform w)) folder) \<longrightarrow> f q = fs w q) \<and>
                 filter is_mkdir (events (install_bridge w)) = [MkdirSync folder None] \<and>
                 install_bridge w =
                   copy_stage w
                     (probes w @ [ExistsSync (sourceScript w) True, ExistsSync folder False,
                                  MkdirSync folder None])
                     f (sourceScript w) (destinationScript (platform w) folder)"
  proof (cases "mkdirSync w (fs w) folder")
    case (Inl m)
    with assms nex show ?thesis by (simp add: install_bridge_mkdir_failed)
  next
    case (Inr f)
    with assms nex have c: "fs_at_copy w = Some f" by (simp add: fs_at_copy_def)
    have 1: "\<forall>q\<in>set (dir_chain (sep (platform w)) folder). f q = Some Dir"
      using mkdirSync_result(2) [OF Inr] by blast
    have 2: "\<forall>q. fs w q \<noteq> None \<longrightarrow> f q = fs w q"
      by (simp add: mkdirSync_result(1) [OF Inr])
    have 3: "\<forall>q. q \<notin> set (dir_chain (sep (platform w)) folder) \<longrightarrow> f q = fs w q"
      by (simp add: mkdirSync_result(1) [OF Inr])
    from assms(1) c have 4: "filter is_mkdir (events (install_bridge w)) = [MkdirSync folder None]"
      by (cases rule: copy_cases)
         (simp_all add: nex succeed_def fail_copy_def events_before_copy_def installing_line_def
            is_mkdir_def)
    have 5: "install_bridge w =
                   copy_stage w
                     (probes w @ [ExistsSync (sourceScript w) True, ExistsSync folder False,
                                  MkdirSync folder None])
                     f (sourceScript w) (destinationScript (platform w) folder)"
      using reaches_copy [OF assms(1) c] nex by (simp add: events_before_copy_def)
    from 1 2 3 4 5 show ?thesis by (simp add: Inr)
  qed
next
  assume a: "\<not> existsSync (fs w) folder \<and> mkdir_refused w (fs w) folder = None \<and>
          (\<forall>q\<in>set (dir_chain (sep (platform w)) folder). \<not> is_file (fs w q))"
  then have nex: "\<not> existsSync (fs w) folder" by simp
  define f where
    "f = fold (\<lambda>q g. if g q = None then g(q \<mapsto> Dir) else g)
           (dir_chain (sep (platform w)) folder) (fs w)"
  from a have f: "mkdirSync w (fs w) folder = Inr f"
    by (simp add: mkdirSync_def list_ex_iff f_def)
  with assms nex have c: "fs_at_copy w = Some f" by (simp add: fs_at_copy_def)
  have 1: "\<forall>q\<in>set (dir_chain (sep (platform w)) folder). f q = Some Dir"
  proof
    fix q assume q: "q \<in> set (dir_chain (sep (platform w)) folder)"
    with a have "\<not> is_file (fs w q)" by simp
    then have "fs w q = None \<or> fs w q = Some Dir"
      by (cases "fs w q") (auto simp: is_file_def split: node.splits)
    with q show "f q = Some Dir" by (auto simp: f_def fold_mkdir)
  qed
  from assms(1) obtain root where "destinationFolder (platform w) root = Some folder"
    using install_folder_some by blast
  then have "folder \<noteq> []" by (rule destinationFolder_nonempty)
  then have "folder \<in> set (dir_chain (sep (platform w)) folder)" by (rule dir_chain_self)
  with 1 have 2: "f folder = Some Dir" by blast
  from assms(1) c have "filter is_mkdir (events (install_bridge w)) = [MkdirSync folder None]"
    by (cases rule: copy_cases)
       (simp_all add: nex succeed_def fail_copy_def events_before_copy_def installing_line_def
          is_mkdir_def)
  then have "MkdirSync folder None \<in> set (filter is_mkdir (events (install_bridge w)))"
    by simp
  then have 3: "MkdirSync folder None \<in> set (events (install_bridge w))" by simp
  show "\<exists>f. mkdirSync w (fs w) folder = Inr f \<and> fs_at_copy w = Some f \<and>
                 f folder = Some Dir \<and>
                 (\<forall>q\<in>set (dir_chain (sep (platform w)) folder). f q = Some Dir) \<and>
                 MkdirSync folder None \<in> set (events (install_bridge w))"
    by (rule exI [of _ f]) (intro conjI f c 1 2 3)
qed

theorem destination_folder_ensured_witness:
  "install_bridge
     (sample_world ''darwin'' mac_dirname mac_bare_fs (Some ''EACCES: permission denied'') None
        (inert (Exited 0))) =
     \<lparr>exit_code = 1, terminal = DirectoryCreationFailed,
      events =
        [ExistsSync ''/Applications/Adobe After Effects 2025'' False,
         ExistsSync mac_root True,
         ExistsSync mac_source True, ExistsSync mac_folder False,
         MkdirSync mac_folder (Some ''EACCES: permission denied''),
         Err ''Error creating destination folder: EACCES: permission denied'',
         Err ''You may need administrative privileges to install the script.''],
      final_fs = mac_bare_fs\<rparr> \<and>
   filter is_mkdir
     (events (install_bridge
        (sample_world ''darwin'' mac_dirname mac_fs (Some ''EACCES: permission denied'') None
           (inert (Exited 0))))) = [] \<and>
   mac_bare_fs (mac_root @ ''/Scripts'') = None \<and>
   mac_bare_fs mac_folder = None \<and>
   filter is_mkdir
     (events (install_bridge
        (sample_world ''darwin'' mac_dirname mac_bare_fs None None (inert (Exited 1))))) =
     [MkdirSync mac_folder None] \<and>
   final_fs (install_bridge
        (sample_world ''darwin'' mac_dirname mac_bare_fs None None (inert (Exited 1))))
     (mac_root @ ''/Scripts'') = Some Dir \<and>
   final_fs (install_bridge
        (sample_world ''darwin'' mac_dirname mac_bare_fs None None (inert (Exited 1))))
     mac_folder = Some Dir \<and>
   final_fs (install_bridge
        (sample_world ''darwin'' mac_dirname mac_bare_fs None None (inert (Exited 1))))
     mac_target = Some (File ''new panel'') \<and>
   exit_code (install_bridge
        (sample_world ''darwin'' mac_dirname mac_bare_fs None None (inert (Exited 1)))) = 0"
proof -
  let ?w = "sample_world ''darwin'' mac_dirname mac_bare_fs (Some ''EACCES: permission denied'') None
        (inert (Exited 0))"
  let ?v = "sample_world ''darwin'' mac_dirname mac_fs (Some ''EACCES: permission denied'') None
        (inert (Exited 0))"
  let ?u = "sample_world ''darwin'' mac_dirname mac_bare_fs None None (inert (Exited 1))"
  have m: "mkdirSync ?w mac_bare_fs mac_folder = Inl ''EACCES: permission denied''"
    by (simp add: mkdirSync_def)
  have 1: "install_bridge ?w =
     \<lparr>exit_code = 1, terminal = DirectoryCreationFailed,
      events =
        [ExistsSync ''/Applications/Adobe After Effects 2025'' False,
         ExistsSync mac_root True,
         ExistsSync mac_source True, ExistsSync mac_folder False,
         MkdirSync mac_folder (Some ''EACCES: permission denied''),
         Err ''Error creating destination folder: EACCES: permission denied'',
         Err ''You may need administrative privileges to install the script.''],
      final_fs = mac_bare_fs\<rparr>"
    using destination_folder_ensured [of ?w mac_folder]
    by (simp add: mac_install_folder mac_bare_fs_lookup mac_source_eq existsSync_def m mac_probes)
  have 2: "filter is_mkdir (events (install_bridge ?v)) = []"
    using destination_folder_ensured [of ?v mac_folder]
    by (simp add: mac_install_folder mac_fs_lookup mac_source_eq existsSync_def)
  have fo: "install_folder ?u = Some mac_folder"
    by (simp add: mac_install_folder mac_bare_fs_lookup)
  have src: "existsSync (fs ?u) (sourceScript ?u)"
    by (simp add: mac_source_eq existsSync_def mac_bare_fs_lookup)
  have nex: "\<not> existsSync (fs ?u) mac_folder"
    by (simp add: existsSync_def mac_bare_fs_lookup)
  have free: "\<forall>q\<in>set (dir_chain (sep (platform ?u)) mac_folder). \<not> is_file (fs ?u q)"
    using dir_chain_prefix mac_bare_no_file_in_chain by (fastforce simp: is_file_iff)
  note ensured = destination_folder_ensured [OF fo src]
  define f where
    "f = fold (\<lambda>q g. if g q = None then g(q \<mapsto> Dir) else g)
           (dir_chain (sep (platform ?u)) mac_folder) (fs ?u)"
  from free have f: "mkdirSync ?u (fs ?u) mac_folder = Inr f"
    by (simp add: mkdirSync_def list_ex_iff f_def)
  from ensured nex free f have
    dirs: "\<forall>q\<in>set (dir_chain (sep (platform ?u)) mac_folder). f q = Some Dir" and
    fold: "f mac_folder = Some Dir"
    by auto
  note created = ensured [THEN conjunct2, THEN conjunct1, THEN mp, OF nex, unfolded f sum.case]
  note keep = created [THEN conjunct2, THEN conjunct2, THEN conjunct1]
  note mk = created [THEN conjunct2, THEN conjunct2, THEN conjunct2, THEN conjunct1]
  note run = created [THEN conjunct2, THEN conjunct2, THEN conjunct2, THEN conjunct2]
  have "mac_folder = (mac_root @ ''/Scripts'') @ CHR ''/'' # ''ScriptUI Panels''"
    by (simp add: mac_paths)
  then have "mac_root @ ''/Scripts'' \<in> set (dir_chain (CHR ''/'') mac_folder)"
    using dir_chain_ancestor [of "mac_root @ ''/Scripts''" "CHR ''/''" "''ScriptUI Panels''"]
    by (simp add: mac_paths)
  with dirs have scripts: "f (mac_root @ ''/Scripts'') = Some Dir"
    by (simp add: sep_def)
  have "mac_source \<notin> set (dir_chain (sep (platform ?u)) mac_folder)"
    using dir_chain_prefix [of mac_source _ mac_folder] by (auto simp: mac_paths)
  with keep have fs: "f mac_source = Some (File ''new panel'')"
    by (simp add: mac_bare_fs_lookup)
  have "mac_target \<notin> set (dir_chain (sep (platform ?u)) mac_folder)"
    using dir_chain_prefix [of mac_target _ mac_folder] by (auto simp: mac_paths)
  with keep have ft: "f mac_target = None"
    by (simp add: mac_bare_fs_lookup)
  have cp: "copyFileSync ?u f mac_source mac_target = Inr (f(mac_target \<mapsto> File ''new panel''))"
    by (simp add: copyFileSync_def fs ft)
  have ne: "mac_root @ ''/Scripts'' \<noteq> mac_target" "mac_folder \<noteq> mac_target"
    by (simp_all add: mac_paths)
  have fin: "install_bridge ?u =
     succeed ?u
       ((probes ?u @ [ExistsSync (sourceScript ?u) True, ExistsSync mac_folder False,
                      MkdirSync mac_folder None]) @
        [Log (''Installing bridge script to '' @ mac_target @ ''...''),
         CopyFileSync mac_source mac_target None])
       (f(mac_target \<mapsto> File ''new panel''))"
    unfolding run mac_source_eq sample_world_sel mac_target_eq
    by (rule copy_stage_mac_direct [OF _ cp]) simp
  have 3: "final_fs (install_bridge ?u) (mac_root @ ''/Scripts'') = Some Dir"
    "final_fs (install_bridge ?u) mac_folder = Some Dir"
    "final_fs (install_bridge ?u) mac_target = Some (File ''new panel'')"
    "exit_code (install_bridge ?u) = 0"
    using ne unfolding fin by (simp_all add: scripts fold)
  from 1 2 3 mk show ?thesis
    by (simp add: mac_bare_fs_lookup) (simp add: mac_bare_fs_def mac_paths)
qed

text \<open>
  C7: the resolver of the script equals the reference resolver.  On \<^verbatim>\<open>win32\<close> and
  \<^verbatim>\<open>darwin\<close> the candidate roots are the platform prefix followed by each year tag of
  the descending sequence, as many as there are year tags, and the destination folder
  is the root followed by the sub-path of the platform; on any other platform there
  are no candidates and no destination folder.
\<close>

theorem resolver_matches_reference:
  "(case resolve_reference plat of
      None \<Rightarrow> getPossibleAfterEffectsPaths plat = [] \<and> destinationFolder plat root = None
    | Some (roots, sub) \<Rightarrow>
        getPossibleAfterEffectsPaths plat = roots \<and>
        length roots = length year_tags \<and>
        (root \<noteq> [] \<and> last root \<noteq> sep plat \<longrightarrow>
           destinationFolder plat root = Some (root @ sep plat # sub)) \<and>
        (\<forall>r\<in>set roots. destinationFolder plat r = Some (r @ sep plat # sub))) \<and>
   (resolve_reference plat \<noteq> None \<longleftrightarrow> plat = ''win32'' \<or> plat = ''darwin'') \<and>
   sorted_wrt (>) year_tags"
proof -
  have win: "getPossibleAfterEffectsPaths ''win32'' =
               map (\<lambda>year. program_files @ CHR 0x5C # ''Adobe'' @ CHR 0x5C #
                      ''Adobe After Effects '' @ decimal year) year_tags"
    unfolding year_tags_def list.map decimal_years
    by (simp add: getPossibleAfterEffectsPaths_def program_files_def)
  have mac: "getPossibleAfterEffectsPaths ''darwin'' =
               map (\<lambda>year. ''/Applications/Adobe After Effects '' @ decimal year) year_tags"
    unfolding year_tags_def list.map decimal_years
    by (simp add: getPossibleAfterEffectsPaths_def)
  have last_win: "\<forall>r\<in>set (getPossibleAfterEffectsPaths ''win32''). r \<noteq> [] \<and> last r \<noteq> sep ''win32''"
    by (simp add: getPossibleAfterEffectsPaths_def sep_def)
  have last_mac: "\<forall>r\<in>set (getPossibleAfterEffectsPaths ''darwin''). r \<noteq> [] \<and> last r \<noteq> sep ''darwin''"
    by (simp add: getPossibleAfterEffectsPaths_def sep_def)
  have sorted: "sorted_wrt (>) year_tags" by (simp add: year_tags_def)
  consider "plat = ''win32''" | "plat = ''darwin''" | "plat \<noteq> ''win32''" "plat \<noteq> ''darwin''"
    by blast
  then show ?thesis
  proof cases
    case 1
    have "\<forall>r\<in>set (getPossibleAfterEffectsPaths ''win32'').
            destinationFolder ''win32'' r =
              Some (r @ sep ''win32'' # ''Support Files'' @ CHR 0x5C # ''Scripts'' @ CHR 0x5C # ''ScriptUI Panels'')"
      using last_win by (simp add: destinationFolder_shape) (simp add: sep_def)
    moreover have "root \<noteq> [] \<and> last root \<noteq> sep ''win32'' \<longrightarrow>
           destinationFolder ''win32'' root =
             Some (root @ sep ''win32'' # ''Support Files'' @ CHR 0x5C # ''Scripts'' @ CHR 0x5C # ''ScriptUI Panels'')"
      by (simp add: destinationFolder_shape) (simp add: sep_def)
    ultimately show ?thesis
      using sorted by (simp add: 1 resolve_reference_def win [symmetric]) (simp add: win)
  next
    case 2
    have "\<forall>r\<in>set (getPossibleAfterEffectsPaths ''darwin'').
            destinationFolder ''darwin'' r = Some (r @ sep ''darwin'' # ''Scripts/ScriptUI Panels'')"
      using last_mac by (simp add: destinationFolder_shape) (simp add: sep_def)
    moreover have "root \<noteq> [] \<and> last root \<noteq> sep ''darwin'' \<longrightarrow>
           destinationFolder ''darwin'' root = Some (root @ sep ''darwin'' # ''Scripts/ScriptUI Panels'')"
      by (simp add: destinationFolder_shape) (simp add: sep_def)
    ultimately show ?thesis
      using sorted by (simp add: 2 resolve_reference_def mac [symmetric]) (simp add: mac)
  next
    case 3
    with sorted show ?thesis
      by (simp add: resolve_reference_def getPossibleAfterEffectsPaths_def destinationFolder_def)
  qed
qed

theorem resolver_matches_reference_witness:
  "resolve_reference ''win32'' =
     Some (getPossibleAfterEffectsPaths ''win32'',
           ''Support Files'' @ CHR 0x5C # ''Scripts'' @ CHR 0x5C # ''ScriptUI Panels'') \<and>
   length (getPossibleAfterEffectsPaths ''win32'') = 5 \<and>
   win_root \<in> set (getPossibleAfterEffectsPaths ''win32'') \<and>
   destinationFolder ''win32'' win_root = Some win_folder"
proof -
  obtain roots sub where rs: "resolve_reference ''win32'' = Some (roots, sub)"
    by (simp add: resolve_reference_def)
  then have sub: "sub = ''Support Files'' @ CHR 0x5C # ''Scripts'' @ CHR 0x5C # ''ScriptUI Panels''"
    by (simp add: resolve_reference_def)
  have m: "win_root \<in> set (getPossibleAfterEffectsPaths ''win32'')"
    by (simp add: getPossibleAfterEffectsPaths_def win_paths)
  from resolver_matches_reference [of "''win32''" win_root] rs
  have "getPossibleAfterEffectsPaths ''win32'' = roots" "length roots = length year_tags"
    "\<forall>r\<in>set roots. destinationFolder ''win32'' r = Some (r @ sep ''win32'' # sub)"
    by simp_all
  with m rs sub show ?thesis
    by (simp add: year_tags_def) (simp add: sep_def win_paths)
qed

text \<open>
  C8: a run exits with 0 exactly when it ends at the last line of the script, which it
  does exactly when the installation was located, the source was found, the folder was
  there or could be created, and one copy attempt succeeded.  Every other run exits
  with 1; no run ends by an uncaught exception.  Each exit site has its own line: a run
  prints the line of the site it ends at and of no other.
\<close>

theorem exit_zero_iff_installed:
  "(exit_code (install_bridge w) = 0 \<longleftrightarrow> terminal (install_bridge w) = Done) \<and>
   (exit_code (install_bridge w) \<noteq> 0 \<longrightarrow> exit_code (install_bridge w) = 1) \<and>
   terminal (install_bridge w) \<noteq> Crashed \<and>
   (terminal (install_bridge w) = Done \<longleftrightarrow>
      (\<exists>folder f. install_folder w = Some folder \<and> fs_at_copy w = Some f \<and>
         copy_succeeds w f (sourceScript w) (destinationScript (platform w) folder))) \<and>
   (\<forall>k. announces k (events (install_bridge w)) \<longleftrightarrow> k = terminal (install_bridge w))"
proof (cases w rule: run_cases)
  case unsupported
  have "fs_at_copy w = None" using unsupported(3) by (simp add: fs_at_copy_def install_folder_def)
  with unsupported show ?thesis
    by (simp add: announces_unsupported) (simp add: located_none_unsupported)
next
  case not_found
  have "fs_at_copy w = None" using not_found(2) by (simp add: fs_at_copy_def install_folder_def)
  with not_found show ?thesis
    by (simp add: announces_not_found) (simp add: install_bridge_not_found)
next
  case (missing_source folder)
  then have "fs_at_copy w = None" by (simp add: source_missing_no_copy)
  with missing_source show ?thesis
    by (simp add: announces_missing_source) (simp add: install_bridge_missing_source)
next
  case (mkdir_failed folder m)
  then have "fs_at_copy w = None" by (simp add: fs_at_copy_def)
  with mkdir_failed show ?thesis
    by (simp add: announces_mkdir_failed) (simp add: install_bridge_mkdir_failed)
next
  case (copy folder f)
  from terminal_copy [OF copy] announces_copy [OF copy] copy show ?thesis
    by auto
qed

theorem exit_zero_iff_installed_witness:
  "exit_code (install_bridge win_fallback_world) = 0 \<and>
   announces Done (events (install_bridge win_fallback_world)) \<and>
   \<not> announces CopyFailed (events (install_bridge win_fallback_world)) \<and>
   exit_code (install_bridge linux_world) = 1 \<and>
   announces UnsupportedPlatform (events (install_bridge linux_world)) \<and>
   \<not> announces Done (events (install_bridge linux_world))"
proof -
  have 1: "terminal (install_bridge win_fallback_world) = Done"
    by (simp add: win_fallback_run)
  have "platform linux_world = ''linux''" by (simp add: linux_world_def)
  then have 2: "terminal (install_bridge linux_world) = UnsupportedPlatform"
    by (simp add: install_bridge_def paths_empty_iff)
  from exit_zero_iff_installed [of win_fallback_world] exit_zero_iff_installed [of linux_world] 1 2
  show ?thesis by simp
qed




text \<open>
  C10: when the folder was freshly created and the run then fails, it fails at the copy
  stage with exit code 1, and after \<^verbatim>\<open>mkdirSync\<close> it has made no call on the file system
  but the two copy attempts.  The file system it ends with is the one the failed
  elevated command left; when that command changed nothing, every directory of the
  created chain is still there and nothing else differs from the start.
\<close>

theorem failed_copy_keeps_created_folder:
  assumes "install_folder w = Some folder" and "existsSync (fs w) (sourceScript w)"
    and "\<not> existsSync (fs w) folder" and "mkdirSync w (fs w) folder = Inr f"
    and "exit_code (install_bridge w) \<noteq> 0"
  shows "terminal (install_bridge w) = CopyFailed \<and> exit_code (install_bridge w) = 1 \<and>
         filter is_mutation (events (install_bridge w)) =
           MkdirSync folder None # attempts (events (install_bridge w)) \<and>
         length (attempts (events (install_bridge w))) = 2 \<and>
         final_fs (install_bridge w) =
           snd (exec w f (elevated_command (platform w) (sourceScript w)
                            (destinationScript (platform w) folder))) \<and>
         (final_fs (install_bridge w) = f \<longrightarrow>
            (\<forall>q\<in>set (dir_chain (sep (platform w)) folder). final_fs (install_bridge w) q = Some Dir) \<and>
            (\<forall>q. q \<notin> set (dir_chain (sep (platform w)) folder) \<longrightarrow>
                 final_fs (install_bridge w) q = fs w q))"
proof -
  from assms(1-4) have c: "fs_at_copy w = Some f" by (simp add: fs_at_copy_def)
  have 1: "\<forall>q\<in>set (dir_chain (sep (platform w)) folder). f q = Some Dir"
    using mkdirSync_result(2) [OF assms(4)] by blast
  have 2: "\<forall>q. q \<notin> set (dir_chain (sep (platform w)) folder) \<longrightarrow> f q = fs w q"
    by (simp add: mkdirSync_result(1) [OF assms(4)])
  have ne: "''darwin'' \<noteq> ''win32''" by simp
  from assms(1) c show ?thesis
  proof (cases rule: copy_cases)
    case win_elevated
    with assms(5) show ?thesis by simp
  next
    case (win_fallback e f2)
    with assms(5) show ?thesis by simp
  next
    case (win_failed e m)
    with 1 2 assms(3) show ?thesis
      by (simp add: elevated_command_def)
  next
    case (mac_direct f1)
    with assms(5) show ?thesis by simp
  next
    case (mac_sudo m)
    with assms(5) show ?thesis by simp
  next
    case (mac_failed m e m2)
    with 1 2 assms(3) ne show ?thesis
      by (simp add: elevated_command_def)
  qed
qed

theorem failed_copy_keeps_created_folder_witness:
  "\<not> existsSync (fs mac_stuck_world) mac_folder \<and>
   exit_code (install_bridge mac_stuck_world) = 1 \<and>
   terminal (install_bridge mac_stuck_world) = CopyFailed \<and>
   final_fs (install_bridge mac_stuck_world) mac_folder = Some Dir \<and>
   final_fs (install_bridge mac_stuck_world) mac_target = None"
proof -
  let ?w = mac_stuck_world
  have p: "platform ?w = ''darwin''" and fsw: "fs ?w = mac_bare_fs"
    by (simp_all add: mac_stuck_world_def)
  have fo: "install_folder ?w = Some mac_folder"
    by (simp add: mac_stuck_world_def mac_install_folder mac_bare_fs_lookup)
  have src: "sourceScript ?w = mac_source"
    by (simp add: mac_stuck_world_def mac_source_eq)
  have ex: "existsSync (fs ?w) (sourceScript ?w)" "\<not> existsSync (fs ?w) mac_folder"
    by (simp_all add: src fsw existsSync_def mac_bare_fs_lookup)
  have "mkdir_refused ?w (fs ?w) mac_folder = None"
    by (simp add: mac_stuck_world_def)
  then obtain f where f: "mkdirSync ?w (fs ?w) mac_folder = Inr f"
    using mkdirSync_allowed [of ?w "fs ?w" mac_folder] mac_bare_no_file_in_chain
    by (auto simp: fsw)
  have c: "fs_at_copy ?w = Some f"
    using fo ex f by (simp add: fs_at_copy_def)
  have cp: "copyFileSync ?w f mac_source mac_target = Inl ''EACCES: permission denied''"
    by (simp add: copyFileSync_def mac_stuck_world_def)
  have x: "exec ?w f c = (Exited 1, f)" for c
    by (simp add: mac_stuck_world_def inert_def)
  have r: "install_bridge ?w =
             copy_stage ?w (events_before_copy ?w mac_folder) f mac_source mac_target"
    using reaches_copy [OF fo c] by (simp add: src p mac_target_eq)
  have e: "exit_code (install_bridge ?w) = 1"
    by (simp add: r copy_stage_mac_failed [OF p cp, of "Exited 1" "''Command failed: '' @ sudo_command mac_source mac_target"]
          x exec_error_def)
  have mf: "mac_folder \<in> set (dir_chain (sep (platform ?w)) mac_folder)"
    by (rule dir_chain_self) (simp add: mac_paths)
  have mt: "mac_target \<notin> set (dir_chain (sep (platform ?w)) mac_folder)"
    using dir_chain_prefix [of mac_target _ mac_folder] by (auto simp: mac_paths)
  from failed_copy_keeps_created_folder [OF fo ex f] e mf mt ex(2)
  show ?thesis
    by (simp add: x p fsw mac_bare_fs_lookup)
qed

end
